theory Spec2Isabelle
  imports Complex_Main
begin

section \<open>The service worker sw.js: cache manager and notification dispatcher\<close>

text \<open>
  The worker is a set of event handlers over platform objects. Each handler is embedded as
  a function from the event and the state of the platform objects it touches (cache
  storage, the network, the open windows) to the settled promise it hands back and the
  state it leaves. A settled promise is a value of \<open>error + 'a\<close>: \<open>Inl\<close> is a
  rejection, \<open>Inr\<close> a fulfilment. Fire-and-forget work a handler starts (a \<open>cache.put\<close>
  that nobody awaits) is run to completion in the state that is returned; when it
  rejects, the rejection is listed as unhandled.
\<close>

subsection \<open>Strings\<close>

text \<open>\<open>s.includes(t)\<close> of JavaScript: \<open>t\<close> occurs in \<open>s\<close> as a contiguous run.\<close>

fun startsWith :: "string \<Rightarrow> string \<Rightarrow> bool" where
  "startsWith s [] = True"
| "startsWith [] (c # t) = False"
| "startsWith (d # s) (c # t) = (d = c \<and> startsWith s t)"

fun str_includes :: "string \<Rightarrow> string \<Rightarrow> bool" where
  "str_includes [] t = startsWith [] t"
| "str_includes (d # s) t = (startsWith (d # s) t \<or> str_includes s t)"

subsection \<open>Promises\<close>

text \<open>
  \<open>NetworkError\<close> is the rejection of a fetch that gets no answer, \<open>TypeError\<close> the
  exception of the language and of the cache interface, \<open>NotAllowed\<close> the refusal to
  show a notification.
\<close>

datatype error = NetworkError | TypeError | NotAllowed

type_synonym 'a promise = "error + 'a"

text \<open>\<open>p.then(f)\<close> and \<open>p.catch(h)\<close> on settled promises.\<close>

definition then_p :: "'a promise \<Rightarrow> ('a \<Rightarrow> 'b promise) \<Rightarrow> 'b promise" where
  "then_p p f = (case p of Inl e \<Rightarrow> Inl e | Inr v \<Rightarrow> f v)"

definition catch_p :: "'a promise \<Rightarrow> (error \<Rightarrow> 'a promise) \<Rightarrow> 'a promise" where
  "catch_p p h = (case p of Inl e \<Rightarrow> h e | Inr v \<Rightarrow> Inr v)"

subsection \<open>Requests, responses, the network\<close>

datatype response_type = Basic | Cors | Default | ErrorType | Opaque | OpaqueRedirect

text \<open>
  Of a response the model keeps the status, the type, whether it was reached through a
  followed redirect (\<open>response.redirected\<close>), whether its \<open>Vary\<close> header is \<open>*\<close>,
  and the body.
\<close>

record response =
  status :: nat
  rtype :: response_type
  redirected :: bool
  vary_star :: bool
  bytes :: string

text \<open>
  Of a request the model keeps the method and the URL; \<open>hostname\<close> and \<open>pathname\<close>
  are the parts \<open>new URL(event.request.url)\<close> exposes. Request headers are not
  modelled.
\<close>

record request =
  http_method :: string
  url :: string
  hostname :: string
  pathname :: string

text \<open>
  The network answers a method and a URL with a response, or not at all (\<open>None\<close>:
  \<open>fetch\<close> rejects).
\<close>

type_synonym network = "string \<Rightarrow> string \<Rightarrow> response option"

definition fetch :: "network \<Rightarrow> request \<Rightarrow> response promise" where
  "fetch net req =
     (case net (http_method req) (url req) of None \<Rightarrow> Inl NetworkError | Some r \<Rightarrow> Inr r)"

subsection \<open>Cache storage\<close>

text \<open>
  A bucket maps the URLs of GET requests to stored responses; cache storage is the list
  of named buckets in the order they were created. Storing replaces the entry of the
  URL. The storage is taken to have room.
\<close>

type_synonym bucket = "(string \<times> response) list"

type_synonym cache_storage = "(string \<times> bucket) list"

definition bucket_put :: "string \<Rightarrow> response \<Rightarrow> bucket \<Rightarrow> bucket" where
  "bucket_put k v b = filter (\<lambda>kv. fst kv \<noteq> k) b @ [(k, v)]"

definition caches_keys :: "cache_storage \<Rightarrow> string list" where
  "caches_keys st = map fst st"

definition caches_open :: "string \<Rightarrow> cache_storage \<Rightarrow> cache_storage" where
  "caches_open name st = (if name \<in> set (caches_keys st) then st else st @ [(name, [])])"

definition caches_delete :: "string \<Rightarrow> cache_storage \<Rightarrow> cache_storage" where
  "caches_delete name st = filter (\<lambda>nb. fst nb \<noteq> name) st"

text \<open>Writing an entry into the bucket of one name.\<close>

definition cache_store :: "string \<Rightarrow> string \<Rightarrow> response \<Rightarrow> cache_storage \<Rightarrow> cache_storage" where
  "cache_store name k v st =
     map (\<lambda>nb. if fst nb = name then (fst nb, bucket_put k v (snd nb)) else nb) st"

definition http_scheme :: "string \<Rightarrow> bool" where
  "http_scheme u = (startsWith u ''http://'' \<or> startsWith u ''https://'')"

text \<open>
  \<open>cache.put(request, response)\<close> rejects with a \<open>TypeError\<close> and writes nothing when
  the request is not a GET, when its URL is not an http or https URL, when the response
  is a partial one (status 206) and when the response varies on \<open>*\<close>. The handlers put
  a clone made before the body is read, so the body is never used up.
\<close>

definition put_accepts :: "request \<Rightarrow> response \<Rightarrow> bool" where
  "put_accepts req resp =
     (http_method req = ''GET'' \<and> http_scheme (url req) \<and> status resp \<noteq> 206 \<and> \<not> vary_star resp)"

definition cache_put ::
  "string \<Rightarrow> request \<Rightarrow> response \<Rightarrow> cache_storage \<Rightarrow> unit promise \<times> cache_storage" where
  "cache_put name req resp st =
     (if put_accepts req resp
      then (Inr (), cache_store name (url req) resp st)
      else (Inl TypeError, st))"

text \<open>
  \<open>caches.match(request)\<close> on the storage as a whole: a request that is not a GET
  matches nothing; for a GET the first bucket, in creation order, that holds the URL
  answers.
\<close>

fun storage_lookup :: "cache_storage \<Rightarrow> string \<Rightarrow> response option" where
  "storage_lookup [] k = None"
| "storage_lookup (nb # st) k =
     (case map_of (snd nb) k of Some r \<Rightarrow> Some r | None \<Rightarrow> storage_lookup st k)"

definition caches_match :: "cache_storage \<Rightarrow> request \<Rightarrow> response option" where
  "caches_match st req = (if http_method req = ''GET'' then storage_lookup st (url req) else None)"

text \<open>\<open>cache.match(request)\<close> on the bucket of one name.\<close>

definition cache_match :: "cache_storage \<Rightarrow> string \<Rightarrow> request \<Rightarrow> response option" where
  "cache_match st name req = caches_match (filter (\<lambda>nb. fst nb = name) st) req"

text \<open>
  \<open>cache.addAll(urls)\<close>: every URL must be an http or https URL and is fetched with a
  GET; one failed fetch, one response outside 200..299, one partial response or one
  response that varies on \<open>*\<close> rejects the whole call and nothing is written.
\<close>

definition addAll_accepts :: "response \<Rightarrow> bool" where
  "addAll_accepts r =
     (200 \<le> status r \<and> status r \<le> 299 \<and> status r \<noteq> 206 \<and> \<not> vary_star r)"

fun fetch_all :: "network \<Rightarrow> string list \<Rightarrow> ((string \<times> response) list) promise" where
  "fetch_all net [] = Inr []"
| "fetch_all net (u # us) =
     (case net ''GET'' u of
        None \<Rightarrow> Inl NetworkError
      | Some r \<Rightarrow>
          if addAll_accepts r
          then (case fetch_all net us of Inl e \<Rightarrow> Inl e | Inr rs \<Rightarrow> Inr ((u, r) # rs))
          else Inl TypeError)"

definition cache_addAll ::
  "network \<Rightarrow> string list \<Rightarrow> string \<Rightarrow> cache_storage \<Rightarrow> unit promise \<times> cache_storage" where
  "cache_addAll net us name st =
     (if \<not> list_all http_scheme us then (Inl TypeError, st)
      else
        (case fetch_all net us of
           Inl e \<Rightarrow> (Inl e, st)
         | Inr rs \<Rightarrow> (Inr (), fold (\<lambda>kv s. cache_store name (fst kv) (snd kv) s) rs st)))"

subsection \<open>Constants of the worker\<close>

definition CACHE_NAME :: string where
  "CACHE_NAME = ''cricstreamzone-v1.0.6''"

text \<open>A manifest entry that starts with a slash is resolved against the worker's origin.\<close>

definition resolve :: "string \<Rightarrow> string \<Rightarrow> string" where
  "resolve origin u = (if startsWith u ''/'' then origin @ u else u)"

definition urlsToCache :: "string list" where
  "urlsToCache =
     [''/'',
      ''/index.html'',
      ''/manifest.json'',
      ''https://cdnjs.cloudflare.com/ajax/libs/bodymovin/5.7.4/lottie.min.js'',
      ''https://i.postimg.cc/3rPWWckN/icon-192.png'',
      ''https://i.postimg.cc/BvWg87Rd/videocam-24dp-E3-E3-E3-FILL0-wght400-GRAD0-opsz24.png'',
      ''https://i.postimg.cc/K8JDvvxs/live-tv-24dp-E3-E3-E3-FILL0-wght400-GRAD0-opsz24.png'',
      ''https://i.postimg.cc/YC472jwd/radio-24dp-E3-E3-E3-FILL0-wght400-GRAD0-opsz24.png'']"

subsection \<open>The install handler\<close>

text \<open>
  \<open>waitUntil\<close> is the promise the handler passes to \<open>event.waitUntil\<close>: the platform
  installs the worker when it fulfils and discards the worker when it rejects.
  \<open>console\<close> is what the handler logs (the pictograph that opens each message is left
  out); console output is part of the model only here, where logging is all that the
  handler's \<open>catch\<close> does.
\<close>

record install_result =
  waitUntil :: "unit promise"
  storage :: cache_storage
  skipWaiting :: bool
  console :: "string list"

definition install_handler :: "string \<Rightarrow> network \<Rightarrow> cache_storage \<Rightarrow> install_result" where
  "install_handler origin net st =
     (let opened = caches_open CACHE_NAME st;
          added = cache_addAll net (map (resolve origin) urlsToCache) CACHE_NAME opened;
          installed = then_p (fst added) (\<lambda>_. Inr ());
          caught = catch_p installed (\<lambda>error. Inr ())
      in \<lparr>waitUntil = caught,
          storage = snd added,
          skipWaiting = (case fst added of Inl e \<Rightarrow> False | Inr _ \<Rightarrow> True),
          console =
            [''Service Worker installing...'', ''Caching app shell''] @
            (case fst added of
               Inl e \<Rightarrow> [''Service Worker installation failed:'']
             | Inr _ \<Rightarrow> [''Service Worker installed successfully''])\<rparr>)"

subsection \<open>The activate handler\<close>

record activate_result =
  act_waitUntil :: "unit promise"
  act_storage :: cache_storage
  claimed :: bool

definition activate_handler :: "cache_storage \<Rightarrow> activate_result" where
  "activate_handler st =
     (let cacheNames = caches_keys st;
          st' = fold (\<lambda>cacheName s.
                        if cacheName \<noteq> CACHE_NAME then caches_delete cacheName s else s)
                     cacheNames st
      in \<lparr>act_waitUntil = Inr (), act_storage = st', claimed = True\<rparr>)"

subsection \<open>The fetch handler\<close>

text \<open>
  \<open>respond\<close> is the promise given to \<open>event.respondWith\<close>; it may fulfil with
  \<open>undefined\<close> (\<open>None\<close>), which is what \<open>caches.match\<close> yields on a miss.
  \<open>fetched\<close> lists the network requests the handler issued, \<open>unhandled\<close> the
  rejections of the puts it started and did not await. A fetch that fulfils carries a
  response, so the source's test \<open>!response\<close> is never true and has no branch here.
\<close>

record fetch_result =
  respond :: "(response option) promise"
  fr_storage :: cache_storage
  fetched :: "string list"
  unhandled :: "error list"

definition is_dynamic :: "request \<Rightarrow> bool" where
  "is_dynamic req =
     (str_includes (hostname req) ''script.google.com'' \<or> str_includes (pathname req) ''api'')"

text \<open>The handlers' \<open>caches.open(CACHE_NAME).then(cache => { cache.put(...) })\<close>.\<close>

definition open_and_put ::
  "request \<Rightarrow> response \<Rightarrow> cache_storage \<Rightarrow> unit promise \<times> cache_storage" where
  "open_and_put req resp st = cache_put CACHE_NAME req resp (caches_open CACHE_NAME st)"

definition rejections :: "unit promise \<Rightarrow> error list" where
  "rejections p = (case p of Inl e \<Rightarrow> [e] | Inr _ \<Rightarrow> [])"

definition fetch_handler :: "network \<Rightarrow> cache_storage \<Rightarrow> request \<Rightarrow> fetch_result" where
  "fetch_handler net st req =
     (if is_dynamic req then
        (case fetch net req of
           Inr response \<Rightarrow>
             \<lparr>respond = Inr (Some response),
              fr_storage = snd (open_and_put req response st),
              fetched = [url req],
              unhandled = rejections (fst (open_and_put req response st))\<rparr>
         | Inl e \<Rightarrow>
             \<lparr>respond = Inr (caches_match st req),
              fr_storage = st,
              fetched = [url req],
              unhandled = []\<rparr>)
      else
        (case caches_match st req of
           Some response \<Rightarrow>
             \<lparr>respond = Inr (Some response), fr_storage = st, fetched = [], unhandled = []\<rparr>
         | None \<Rightarrow>
             (case fetch net req of
                Inr response \<Rightarrow>
                  if status response \<noteq> 200 \<or> rtype response \<noteq> Basic
                  then \<lparr>respond = Inr (Some response), fr_storage = st,
                        fetched = [url req], unhandled = []\<rparr>
                  else \<lparr>respond = Inr (Some response),
                        fr_storage = snd (open_and_put req response st),
                        fetched = [url req],
                        unhandled = rejections (fst (open_and_put req response st))\<rparr>
              | Inl e \<Rightarrow>
                  \<lparr>respond = Inl e, fr_storage = st, fetched = [url req], unhandled = []\<rparr>)))"

text \<open>
  What the requester gets from \<open>event.respondWith(p)\<close>: a network error when \<open>p\<close>
  rejects or fulfils with something that is not a response, and the response \<open>p\<close>
  fulfils with when the platform accepts it for the request. \<open>acceptable\<close> stands for
  the platform's checks of a response against the mode and the redirect mode of the
  request.
\<close>

definition respondWith ::
  "(request \<Rightarrow> response \<Rightarrow> bool) \<Rightarrow> request \<Rightarrow> (response option) promise \<Rightarrow> response promise" where
  "respondWith acceptable req p =
     (case p of
        Inl e \<Rightarrow> Inl NetworkError
      | Inr None \<Rightarrow> Inl NetworkError
      | Inr (Some r) \<Rightarrow> if acceptable req r then Inr r else Inl NetworkError)"

subsection \<open>JavaScript values\<close>

text \<open>
  The values a push payload decodes to and a notification carries as data. Numbers are
  reals; how a number prints (\<open>Number.prototype.toString\<close>) is left to the platform
  and passed in as \<open>numstr\<close>. \<open>undefined\<close> is \<open>None\<close> of \<open>json option\<close>.
  Characters outside ASCII are written as their UTF-8 bytes.
\<close>

datatype json =
    JNull
  | JBool bool
  | JNum real
  | JStr string
  | JArr "json list"
  | JObj "(string \<times> json) list"

type_synonym props = "(string \<times> json) list"

fun truthy :: "json option \<Rightarrow> bool" where
  "truthy None = False"
| "truthy (Some JNull) = False"
| "truthy (Some (JBool b)) = b"
| "truthy (Some (JNum n)) = (n \<noteq> 0)"
| "truthy (Some (JStr s)) = (s \<noteq> [])"
| "truthy (Some (JArr xs)) = True"
| "truthy (Some (JObj kvs)) = True"

text \<open>\<open>a || b\<close> where \<open>b\<close> is a defined value.\<close>

definition js_or :: "json option \<Rightarrow> json \<Rightarrow> json" where
  "js_or a b = (case a of None \<Rightarrow> b | Some v \<Rightarrow> if truthy (Some v) then v else b)"

fun join :: "string \<Rightarrow> string list \<Rightarrow> string" where
  "join sep [] = []"
| "join sep [s] = s"
| "join sep (s # t # ss) = s @ sep @ join sep (t # ss)"

text \<open>The results of a list of conversions, or the first exception among them.\<close>

fun all_or_first_error :: "(error + 'a) list \<Rightarrow> error + 'a list" where
  "all_or_first_error [] = Inr []"
| "all_or_first_error (Inl e # rs) = Inl e"
| "all_or_first_error (Inr v # rs) =
     (case all_or_first_error rs of Inl e \<Rightarrow> Inl e | Inr vs \<Rightarrow> Inr (v # vs))"

text \<open>
  The string a value converts to when it is concatenated to a string or passed where
  the platform takes a string. An array joins its elements with commas, \<open>null\<close>
  elements printing as nothing. An object prints through the \<open>toString\<close> it inherits,
  unless it has a member named \<open>toString\<close> of its own: a decoded or cloned value is
  never a function, so that member cannot be called, the inherited \<open>valueOf\<close> only
  gives the object back, and the conversion throws a \<open>TypeError\<close>.
\<close>

fun to_string :: "(real \<Rightarrow> string) \<Rightarrow> json \<Rightarrow> error + string" where
  "to_string numstr JNull = Inr ''null''"
| "to_string numstr (JBool b) = Inr (if b then ''true'' else ''false'')"
| "to_string numstr (JNum n) = Inr (numstr n)"
| "to_string numstr (JStr s) = Inr s"
| "to_string numstr (JArr xs) =
     (case all_or_first_error
             (map (\<lambda>x. if x = JNull then Inr [] else to_string numstr x) xs) of
        Inl e \<Rightarrow> Inl e
      | Inr ss \<Rightarrow> Inr (join '','' ss))"
| "to_string numstr (JObj kvs) =
     (if ''toString'' \<in> set (map fst kvs) then Inl TypeError else Inr ''[object Object]'')"

text \<open>
  Reading a property: only an object has the properties the worker reads (\<open>title\<close>,
  \<open>body\<close>, \<open>icon\<close>, \<open>badge\<close>, \<open>url\<close>, \<open>matchData\<close>, \<open>matchId\<close>);
  \<open>prop_opt\<close> is the optional chaining \<open>v?.k\<close>, which only differs on \<open>null\<close>, where
  plain access throws.
\<close>

fun prop_opt :: "json \<Rightarrow> string \<Rightarrow> json option" where
  "prop_opt (JObj kvs) k = map_of kvs k"
| "prop_opt v k = None"

text \<open>Decimal digits of an array index.\<close>

fun digits :: "nat \<Rightarrow> string" where
  "digits n =
     (if n < 10 then [char_of (48 + n)] else digits (n div 10) @ [char_of (48 + n mod 10)])"

declare digits.simps [simp del]

text \<open>
  The own enumerable properties object spread copies: those of an object, the indexed
  elements of an array, the indexed characters of a string, none of anything else.
\<close>

fun own_props :: "json \<Rightarrow> props" where
  "own_props (JObj kvs) = kvs"
| "own_props (JArr xs) = zip (map digits [0..<length xs]) xs"
| "own_props (JStr s) = zip (map digits [0..<length s]) (map (\<lambda>c. JStr [c]) s)"
| "own_props v = []"

text \<open>Assigning a property keeps the place of a key that is there and appends a new one.\<close>

fun set_prop :: "string \<Rightarrow> json \<Rightarrow> props \<Rightarrow> props" where
  "set_prop k v [] = [(k, v)]"
| "set_prop k v (p # ps) = (if fst p = k then (k, v) # ps else p # set_prop k v ps)"

text \<open>\<open>{...a, ...b}\<close>: the properties of each source are assigned in turn to a new object.\<close>

definition spread :: "props list \<Rightarrow> props" where
  "spread sources = fold (\<lambda>kv obj. set_prop (fst kv) (snd kv) obj) (concat sources) []"

subsection \<open>The push handler\<close>

record action_button =
  action :: string
  title :: string
  button_icon :: string

record notification_options =
  body :: "json option"
  icon :: "json option"
  badge :: "json option"
  vibrate :: "nat list"
  data :: json
  actions :: "action_button list"
  requireInteraction :: bool
  silent :: bool
  tag :: string
  renotify :: bool
  timestamp :: nat

text \<open>
  What the platform supplies to the handler: the JSON decoder behind \<open>event.data.json()\<close>
  (\<open>None\<close>: it throws), number printing, the two readings of \<open>Date.now()\<close>, the
  draw of \<open>Math.random()\<close>, and whether \<open>showNotification\<close> fulfils.
\<close>

record push_platform =
  JSON_parse :: "string \<Rightarrow> json option"
  Number_toString :: "real \<Rightarrow> string"
  Date_now_arrival :: nat
  Math_random :: real
  Date_now_timestamp :: nat
  showNotification_allowed :: bool

definition icon_192 :: string where
  "icon_192 = ''https://i.postimg.cc/3rPWWckN/icon-192.png''"

definition default_notificationData :: props where
  "default_notificationData =
     [(''title'', JStr ''CricStreamZone''),
      (''body'', JStr ''New cricket match update!''),
      (''icon'', JStr icon_192),
      (''badge'', JStr icon_192)]"

text \<open>The push event's \<open>data\<close> is \<open>None\<close> (no payload) or the payload's text.\<close>

definition notificationData :: "push_platform \<Rightarrow> string option \<Rightarrow> props" where
  "notificationData pf event_data =
     (case event_data of
        None \<Rightarrow> default_notificationData
      | Some payload \<Rightarrow>
          (case JSON_parse pf payload of
             Some pushData \<Rightarrow> spread [default_notificationData, own_props pushData]
           | None \<Rightarrow> set_prop ''body'' (JStr payload) default_notificationData))"

definition push_actions :: "action_button list" where
  "push_actions =
     [\<lparr>action = ''watch'',
       title = [CHR 0xF0, CHR 0x9F, CHR 0x93, CHR 0xBA] @ '' Watch Live'',
       button_icon = ''https://i.postimg.cc/BvWg87Rd/videocam-24dp-E3-E3-E3-FILL0-wght400-GRAD0-opsz24.png''\<rparr>,
      \<lparr>action = ''remind'',
       title = [CHR 0xE2, CHR 0x8F, CHR 0xB0] @ '' Remind Me'',
       button_icon = ''https://i.postimg.cc/YC472jwd/radio-24dp-E3-E3-E3-FILL0-wght400-GRAD0-opsz24.png''\<rparr>,
      \<lparr>action = ''dismiss'',
       title = [CHR 0xE2, CHR 0x9D, CHR 0x8C] @ '' Dismiss'',
       button_icon = ''https://i.postimg.cc/K8JDvvxs/live-tv-24dp-E3-E3-E3-FILL0-wght400-GRAD0-opsz24.png''\<rparr>]"

text \<open>
  The \<open>options\<close> object literal. Only the concatenation that builds the tag can throw;
  when it does, the handler ends there.
\<close>

definition push_options :: "push_platform \<Rightarrow> props \<Rightarrow> error + notification_options" where
  "push_options pf nd =
     (case to_string (Number_toString pf) (js_or (map_of nd ''matchId'') (JStr ''general'')) of
        Inl e \<Rightarrow> Inl e
      | Inr matchId \<Rightarrow>
          Inr \<lparr>body = map_of nd ''body'',
               icon = map_of nd ''icon'',
               badge = map_of nd ''badge'',
               vibrate = [200, 100, 200, 100, 200],
               data = JObj
                 [(''dateOfArrival'', JNum (real (Date_now_arrival pf))),
                  (''primaryKey'', JNum (Math_random pf)),
                  (''url'', js_or (map_of nd ''url'') (JStr ''/'')),
                  (''matchData'', js_or (map_of nd ''matchData'') JNull)],
               actions = push_actions,
               requireInteraction = True,
               silent = False,
               tag = ''cricket-match-'' @ matchId,
               renotify = True,
               timestamp = Date_now_timestamp pf\<rparr>)"

text \<open>
  \<open>shown_title\<close> and \<open>shown_options\<close> are the arguments of
  \<open>self.registration.showNotification\<close>; \<open>push_waitUntil\<close> is the promise given to
  \<open>event.waitUntil\<close>. The handler as a whole is \<open>Inl\<close> when it throws before it gets
  to show anything.
\<close>

record push_result =
  shown_title :: "json option"
  shown_options :: notification_options
  push_waitUntil :: "unit promise"

definition showNotification :: "push_platform \<Rightarrow> unit promise" where
  "showNotification pf = (if showNotification_allowed pf then Inr () else Inl NotAllowed)"

definition push_handler :: "push_platform \<Rightarrow> string option \<Rightarrow> error + push_result" where
  "push_handler pf event_data =
     (let nd = notificationData pf event_data
      in case push_options pf nd of
           Inl e \<Rightarrow> Inl e
         | Inr options \<Rightarrow>
             Inr \<lparr>shown_title = map_of nd ''title'',
                  shown_options = options,
                  push_waitUntil =
                    catch_p (then_p (showNotification pf) (\<lambda>_. Inr ())) (\<lambda>error. Inr ())\<rparr>)"

subsection \<open>The notificationclick handler\<close>

record window_client =
  client_id :: nat
  client_url :: string

record reminder =
  reminder_title :: string
  reminder_body :: string
  reminder_icon :: string
  reminder_tag :: string

text \<open>
  What the handler does, in the order it does it: the platform calls it makes and, last,
  \<open>Reject\<close> when the promise it gave to \<open>event.waitUntil\<close> rejects.
\<close>

datatype effect =
    NotificationClose
  | MatchAll bool
  | Focus window_client
  | PostMessage window_client json
  | OpenWindow string
  | SetTimeout nat reminder
  | Reject error

definition urlToOpen :: "json \<Rightarrow> json" where
  "urlToOpen notification_data = js_or (prop_opt notification_data ''url'') (JStr ''/'')"

definition reminder_notification :: reminder where
  "reminder_notification =
     \<lparr>reminder_title = [CHR 0xF0, CHR 0x9F, CHR 0x94, CHR 0x94] @ '' Cricket Match Reminder'',
      reminder_body = ''Don't forget to check the live match!'',
      reminder_icon = icon_192,
      reminder_tag = ''reminder''\<rparr>"

text \<open>
  \<open>matchAll\<close> is what \<open>clients.matchAll\<close> answers, by its \<open>includeUncontrolled\<close>
  option; \<open>origin\<close> is \<open>self.location.origin\<close>; \<open>event_action\<close> is empty when the
  body of the notification was clicked. The URL to open is converted to a string inside
  the \<open>then\<close> callback, so a conversion that throws rejects the promise and no window
  is opened.
\<close>

definition notificationclick_handler ::
  "(real \<Rightarrow> string) \<Rightarrow> string \<Rightarrow> (bool \<Rightarrow> window_client list) \<Rightarrow> string \<Rightarrow> json \<Rightarrow> effect list"
where
  "notificationclick_handler numstr origin matchAll event_action notification_data =
     NotificationClose #
     (if event_action = ''watch'' then
        MatchAll True #
        (case find (\<lambda>client. str_includes (client_url client) origin) (matchAll True) of
           Some client \<Rightarrow>
             [Focus client,
              PostMessage client
                (JObj [(''action'', JStr ''showLiveMatches''), (''data'', notification_data)])]
         | None \<Rightarrow>
             (case to_string numstr (urlToOpen notification_data) of
                Inr target \<Rightarrow> [OpenWindow (target @ ''?action=watch'')]
              | Inl e \<Rightarrow> [Reject e]))
      else if event_action = ''remind'' then
        [SetTimeout (5 * 60 * 1000) reminder_notification]
      else if event_action = ''dismiss'' then
        []
      else
        MatchAll False #
        (case matchAll False of
           client # rest \<Rightarrow> [Focus client]
         | [] \<Rightarrow>
             (case to_string numstr (urlToOpen notification_data) of
                Inr target \<Rightarrow> [OpenWindow target]
              | Inl e \<Rightarrow> [Reject e])))"

text \<open>The platform calls that bring a window to the user: a focus or an opened window.\<close>

fun focus_or_open :: "effect \<Rightarrow> bool" where
  "focus_or_open (Focus c) = True"
| "focus_or_open (OpenWindow u) = True"
| "focus_or_open e = False"

subsection \<open>Concrete inputs\<close>

definition ex_origin :: string where
  "ex_origin = ''https://app.example''"

definition ex_api :: request where
  "ex_api =
     \<lparr>http_method = ''GET'',
      url = ''https://script.google.com/macros/s/x/exec'',
      hostname = ''script.google.com'',
      pathname = ''/macros/s/x/exec''\<rparr>"

definition ex_api_post :: request where
  "ex_api_post =
     \<lparr>http_method = ''POST'',
      url = ''https://script.google.com/macros/s/x/exec'',
      hostname = ''script.google.com'',
      pathname = ''/macros/s/x/exec''\<rparr>"

definition ex_page :: request where
  "ex_page =
     \<lparr>http_method = ''GET'',
      url = ''https://app.example/index.html'',
      hostname = ''app.example'',
      pathname = ''/index.html''\<rparr>"

definition ex_form_post :: request where
  "ex_form_post =
     \<lparr>http_method = ''POST'',
      url = ''https://app.example/index.html'',
      hostname = ''app.example'',
      pathname = ''/index.html''\<rparr>"

definition ex_fresh :: response where
  "ex_fresh =
     \<lparr>status = 200, rtype = Basic, redirected = False, vary_star = False, bytes = ''fresh''\<rparr>"

definition ex_stored :: response where
  "ex_stored =
     \<lparr>status = 200, rtype = Basic, redirected = False, vary_star = False, bytes = ''stored''\<rparr>"

definition ex_failure :: response where
  "ex_failure =
     \<lparr>status = 500, rtype = Cors, redirected = False, vary_star = False, bytes = ''failure''\<rparr>"

definition ex_not_found :: response where
  "ex_not_found =
     \<lparr>status = 404, rtype = Basic, redirected = False, vary_star = False,
      bytes = ''not found''\<rparr>"

definition ex_opaque :: response where
  "ex_opaque =
     \<lparr>status = 0, rtype = Opaque, redirected = False, vary_star = False, bytes = []\<rparr>"

text \<open>A partial answer, and the answer at the end of a followed same-origin redirect.\<close>

definition ex_partial :: response where
  "ex_partial =
     \<lparr>status = 206, rtype = Cors, redirected = False, vary_star = False, bytes = ''part''\<rparr>"

definition ex_redirected :: response where
  "ex_redirected =
     \<lparr>status = 200, rtype = Basic, redirected = True, vary_star = False, bytes = ''moved''\<rparr>"

definition net_down :: network where
  "net_down = (\<lambda>m u. None)"

definition net_answers :: "response \<Rightarrow> network" where
  "net_answers r = (\<lambda>m u. Some r)"

text \<open>A network on which one icon of the manifest cannot be fetched.\<close>

definition net_without_icon :: network where
  "net_without_icon =
     (\<lambda>m u. if u = ''https://i.postimg.cc/3rPWWckN/icon-192.png'' then None
            else Some ex_fresh)"

text \<open>A platform that lets every response through to the requester.\<close>

definition accept_all :: "request \<Rightarrow> response \<Rightarrow> bool" where
  "accept_all = (\<lambda>req r. True)"

text \<open>A number printer that is right on the two numbers used below.\<close>

definition ex_numstr :: "real \<Rightarrow> string" where
  "ex_numstr = (\<lambda>n. if n = 7 then ''7'' else ''0'')"

definition ex_pf :: "json option \<Rightarrow> push_platform" where
  "ex_pf decoded =
     \<lparr>JSON_parse = (\<lambda>payload. decoded),
      Number_toString = ex_numstr,
      Date_now_arrival = 1000,
      Math_random = 0,
      Date_now_timestamp = 1001,
      showNotification_allowed = False\<rparr>"

definition ex_window :: "nat \<Rightarrow> string \<Rightarrow> window_client" where
  "ex_window i u = \<lparr>client_id = i, client_url = u\<rparr>"

definition no_windows :: "bool \<Rightarrow> window_client list" where
  "no_windows = (\<lambda>includeUncontrolled. [])"

definition two_windows :: "bool \<Rightarrow> window_client list" where
  "two_windows =
     (\<lambda>includeUncontrolled.
        [ex_window 1 ''https://app.example/'', ex_window 2 ''https://app.example/live''])"

text \<open>The data of a notification shown through \<open>scheduleNotification\<close>: no \<open>url\<close>.\<close>

definition ex_scheduled_data :: json where
  "ex_scheduled_data = JObj [(''matchData'', JNull)]"

definition ex_push_data :: json where
  "ex_push_data = JObj [(''url'', JStr ''/live''), (''matchData'', JNull)]"

text \<open>Notification data whose \<open>url\<close> is an object with a member named \<open>toString\<close>.\<close>

definition ex_unprintable_data :: json where
  "ex_unprintable_data = JObj [(''url'', JObj [(''toString'', JStr ''x'')])]"

text \<open>A push payload that is a JSON object, and the value it decodes to.\<close>

definition ex_json_text :: string where
  "ex_json_text = ''{\"title\":\"X\",\"matchId\":\"42\"}''"

definition ex_decoded :: json where
  "ex_decoded = JObj [(''title'', JStr ''X''), (''matchId'', JStr ''42'')]"

text \<open>A payload that gives every field the worker reads, with a number as identifier.\<close>

definition ex_rich_text :: string where
  "ex_rich_text =
     ''{\"title\":\"Final\",\"body\":\"Live now\",\"url\":\"/live\",\"matchData\":{\"over\":7},\"matchId\":7}''"

definition ex_rich :: json where
  "ex_rich =
     JObj [(''title'', JStr ''Final''), (''body'', JStr ''Live now''), (''url'', JStr ''/live''),
           (''matchData'', JObj [(''over'', JNum 7)]), (''matchId'', JNum 7)]"

text \<open>A payload whose match identifier is an object with a member named \<open>toString\<close>.\<close>

definition ex_unprintable_text :: string where
  "ex_unprintable_text = ''{\"matchId\":{\"toString\":\"x\"}}''"

definition ex_unprintable_id :: json where
  "ex_unprintable_id = JObj [(''matchId'', JObj [(''toString'', JStr ''x'')])]"

section \<open>Facts about cache storage\<close>

lemma map_of_cache_store:
  "map_of (cache_store name k v st) n =
     (case map_of st n of
        None \<Rightarrow> None
      | Some b \<Rightarrow> Some (if n = name then bucket_put k v b else b))"
  by (induction st) (auto simp: cache_store_def)

lemma map_of_bucket_put: "map_of (bucket_put k v b) k = Some v"
proof -
  have "map_of (filter (\<lambda>kv. fst kv \<noteq> k) b) k = None"
    by (force simp: map_of_eq_None_iff)
  then show ?thesis
    by (simp add: bucket_put_def map_add_def)
qed

lemma lookup_named_store:
  "name \<in> set (caches_keys st) \<Longrightarrow>
     storage_lookup (filter (\<lambda>nb. fst nb = name) (cache_store name k v st)) k = Some v"
  by (induction st) (auto simp: cache_store_def caches_keys_def map_of_bucket_put)

lemma caches_open_names: "name \<in> set (caches_keys (caches_open name st))"
  by (simp add: caches_open_def caches_keys_def)

lemma cache_match_store_open:
  "http_method req = ''GET'' \<Longrightarrow>
     cache_match (cache_store name (url req) v (caches_open name st)) name req = Some v"
  by (simp add: cache_match_def caches_match_def lookup_named_store caches_open_names)

lemma storage_lookup_append_empty: "storage_lookup (st @ [(n, [])]) k = storage_lookup st k"
  by (induction st) (auto split: option.splits)

lemma cache_match_open: "cache_match (caches_open name st) n req = cache_match st n req"
  by (simp add: cache_match_def caches_match_def caches_open_def storage_lookup_append_empty)

text \<open>
  When no bucket of another name holds the URL, the storage-wide \<open>caches.match\<close> is
  the lookup in the bucket of the name.
\<close>

lemma storage_lookup_no_other:
  "\<forall>nb \<in> set st. fst nb \<noteq> name \<longrightarrow> map_of (snd nb) k = None \<Longrightarrow>
     storage_lookup st k = storage_lookup (filter (\<lambda>nb. fst nb = name) st) k"
  by (induction st) (auto split: option.splits)

lemma caches_match_no_other:
  "\<forall>nb \<in> set st. fst nb \<noteq> name \<longrightarrow> map_of (snd nb) (url req) = None \<Longrightarrow>
     caches_match st req = cache_match st name req"
  using storage_lookup_no_other [of st name "url req"]
  by (simp add: cache_match_def caches_match_def)

lemma open_and_put_accepted:
  "put_accepts req resp \<Longrightarrow>
     open_and_put req resp st =
       (Inr (), cache_store CACHE_NAME (url req) resp (caches_open CACHE_NAME st))"
  by (simp add: open_and_put_def cache_put_def)

lemma open_and_put_refused:
  "\<not> put_accepts req resp \<Longrightarrow>
     open_and_put req resp st = (Inl TypeError, caches_open CACHE_NAME st)"
  by (simp add: open_and_put_def cache_put_def)

lemma put_accepts_GET: "put_accepts req resp \<Longrightarrow> http_method req = ''GET''"
  by (simp add: put_accepts_def)

lemma fold_delete_others:
  "fold (\<lambda>cacheName s. if cacheName \<noteq> c then caches_delete cacheName s else s) ns st =
     filter (\<lambda>nb. fst nb = c \<or> fst nb \<notin> set ns) st"
proof (induction ns arbitrary: st)
  case Nil
  show ?case by simp
next
  case (Cons n ns)
  show ?case
    by (auto simp: Cons.IH caches_delete_def intro!: filter_cong)
qed

lemma activate_storage:
  "act_storage (activate_handler st) = filter (\<lambda>nb. fst nb = CACHE_NAME) st"
proof -
  have "filter (\<lambda>nb. fst nb = CACHE_NAME \<or> fst nb \<notin> set (map fst st)) st =
        filter (\<lambda>nb. fst nb = CACHE_NAME) st"
    by (rule filter_cong) auto
  then show ?thesis
    by (simp add: activate_handler_def Let_def fold_delete_others caches_keys_def)
qed

lemma map_of_filter_name: "map_of (filter (\<lambda>nb. fst nb = c) st) c = map_of st c"
  by (induction st) auto

section \<open>Facts about the install handler\<close>

text \<open>
  The promise the install handler gives to \<open>event.waitUntil\<close> fulfils on every network
  and every storage: the \<open>catch\<close> at the end of the chain turns a rejection into a
  fulfilment.
\<close>

lemma install_always_fulfils: "waitUntil (install_handler origin net st) = Inr ()"
  by (simp add: install_handler_def Let_def then_p_def catch_p_def split: sum.splits)

text \<open>
  A failed seed writes no entry: the storage is what \<open>caches.open\<close> left, and
  \<open>skipWaiting\<close> is not called.
\<close>

lemma install_failure_commits_nothing:
  assumes "fst (cache_addAll net (map (resolve origin) urlsToCache) CACHE_NAME
                  (caches_open CACHE_NAME st)) = Inl e"
  shows "storage (install_handler origin net st) = caches_open CACHE_NAME st"
    and "skipWaiting (install_handler origin net st) = False"
  using assms
  by (auto simp: install_handler_def Let_def cache_addAll_def split: if_splits sum.splits)

text \<open>
  The install handler opens the current bucket whether or not the seed succeeds, so
  an activation that follows it leaves exactly the current bucket.
\<close>

lemma caches_keys_cache_store: "caches_keys (cache_store name k v st) = caches_keys st"
  by (induction st) (auto simp: cache_store_def caches_keys_def)

lemma caches_keys_store_all:
  "caches_keys (fold (\<lambda>kv s. cache_store name (fst kv) (snd kv) s) rs st) = caches_keys st"
  by (induction rs arbitrary: st) (simp_all add: caches_keys_cache_store)

lemma install_opens_current:
  "CACHE_NAME \<in> set (caches_keys (storage (install_handler origin net st)))"
  by (simp add: install_handler_def Let_def cache_addAll_def caches_keys_store_all
      caches_open_names split: sum.splits)

lemma install_then_activate_names:
  "set (caches_keys (act_storage (activate_handler (storage (install_handler origin net st)))))
     = {CACHE_NAME}"
proof -
  let ?st = "storage (install_handler origin net st)"
  have "set (caches_keys (filter (\<lambda>nb. fst nb = CACHE_NAME) ?st)) =
        set (caches_keys ?st) \<inter> {CACHE_NAME}"
    by (force simp: caches_keys_def)
  then show ?thesis
    using install_opens_current [of origin net st] by (simp add: activate_storage)
qed

section \<open>Facts about the notification descriptor\<close>

lemma map_of_set_prop: "map_of (set_prop k v ps) = (map_of ps)(k \<mapsto> v)"
  by (induction ps) auto

lemma map_of_assign_all:
  "map_of (fold (\<lambda>kv obj. set_prop (fst kv) (snd kv) obj) ext base) =
     map_of base ++ map_of (rev ext)"
proof (induction ext arbitrary: base)
  case Nil
  show ?case by simp
next
  case (Cons kv ext)
  show ?case
    by (simp add: Cons.IH map_of_set_prop map_add_def fun_eq_iff split: option.splits)
qed

lemma map_of_rev_distinct: "distinct (map fst xs) \<Longrightarrow> map_of (rev xs) = map_of xs"
proof (induction xs)
  case Nil
  show ?case by simp
next
  case (Cons kv xs)
  then have "map_of xs (fst kv) = None"
    by (simp add: map_of_eq_None_iff)
  with Cons show ?case
    by (cases kv) (auto simp: map_add_def fun_eq_iff split: option.splits)
qed

lemma map_of_spread2: "map_of (spread [a, b]) = map_of (rev a) ++ map_of (rev b)"
  by (simp add: spread_def map_of_assign_all)

lemma merged_lookup_any:
  assumes "JSON_parse pf payload = Some pushData"
  shows "map_of (notificationData pf (Some payload)) k =
           (case map_of (rev (own_props pushData)) k of
              Some v \<Rightarrow> Some v
            | None \<Rightarrow> map_of default_notificationData k)"
proof -
  have d: "distinct (map fst default_notificationData)"
    by (simp add: default_notificationData_def)
  show ?thesis
    using assms
    by (simp add: notificationData_def map_of_spread2 map_of_rev_distinct d map_add_def)
qed

lemma default_fields:
  "map_of default_notificationData ''title'' = Some (JStr ''CricStreamZone'')"
  "map_of default_notificationData ''body'' = Some (JStr ''New cricket match update!'')"
  "map_of default_notificationData ''icon'' =
     Some (JStr ''https://i.postimg.cc/3rPWWckN/icon-192.png'')"
  "map_of default_notificationData ''badge'' =
     Some (JStr ''https://i.postimg.cc/3rPWWckN/icon-192.png'')"
  "map_of default_notificationData ''url'' = None"
  "map_of default_notificationData ''matchData'' = None"
  "map_of default_notificationData ''matchId'' = None"
  by (simp_all add: default_notificationData_def icon_192_def)

lemma merged_lookup_object:
  assumes "JSON_parse pf payload = Some (JObj kvs)" and "distinct (map fst kvs)"
  shows "map_of (notificationData pf (Some payload)) k =
           (case map_of kvs k of
              Some v \<Rightarrow> Some v
            | None \<Rightarrow> map_of default_notificationData k)"
  using merged_lookup_any [OF assms(1), of k] assms(2)
  by (simp add: map_of_rev_distinct)

text \<open>
  The push handler on a payload that decodes to an object, and on no payload.
\<close>

lemma push_handler_object:
  assumes "JSON_parse pf payload = Some (JObj kvs)" and "distinct (map fst kvs)"
  shows "push_handler pf (Some payload) =
     (case to_string (Number_toString pf)
             (js_or (map_of kvs ''matchId'') (JStr ''general'')) of
        Inl e \<Rightarrow> Inl e
      | Inr matchId \<Rightarrow>
          Inr \<lparr>shown_title = (case map_of kvs ''title'' of Some v \<Rightarrow> Some v | None \<Rightarrow> Some (JStr ''CricStreamZone'')),
            shown_options =
              \<lparr>body = (case map_of kvs ''body'' of Some v \<Rightarrow> Some v | None \<Rightarrow> Some (JStr ''New cricket match update!'')),
               icon = (case map_of kvs ''icon'' of Some v \<Rightarrow> Some v | None \<Rightarrow> Some (JStr ''https://i.postimg.cc/3rPWWckN/icon-192.png'')),
               badge = (case map_of kvs ''badge'' of Some v \<Rightarrow> Some v | None \<Rightarrow> Some (JStr ''https://i.postimg.cc/3rPWWckN/icon-192.png'')),
               vibrate = [200, 100, 200, 100, 200],
               data = JObj
                 [(''dateOfArrival'', JNum (real (Date_now_arrival pf))),
                  (''primaryKey'', JNum (Math_random pf)),
                  (''url'', js_or (map_of kvs ''url'') (JStr ''/'')),
                  (''matchData'', js_or (map_of kvs ''matchData'') JNull)],
               actions =
                 [\<lparr>action = ''watch'',
                    title = [CHR 0xF0, CHR 0x9F, CHR 0x93, CHR 0xBA] @ '' Watch Live'',
                    button_icon =
                      ''https://i.postimg.cc/BvWg87Rd/videocam-24dp-E3-E3-E3-FILL0-wght400-GRAD0-opsz24.png''\<rparr>,
                   \<lparr>action = ''remind'',
                    title = [CHR 0xE2, CHR 0x8F, CHR 0xB0] @ '' Remind Me'',
                    button_icon =
                      ''https://i.postimg.cc/YC472jwd/radio-24dp-E3-E3-E3-FILL0-wght400-GRAD0-opsz24.png''\<rparr>,
                   \<lparr>action = ''dismiss'',
                    title = [CHR 0xE2, CHR 0x9D, CHR 0x8C] @ '' Dismiss'',
                    button_icon =
                      ''https://i.postimg.cc/K8JDvvxs/live-tv-24dp-E3-E3-E3-FILL0-wght400-GRAD0-opsz24.png''\<rparr>],
               requireInteraction = True,
               silent = False,
               tag = ''cricket-match-'' @ matchId,
               renotify = True,
               timestamp = Date_now_timestamp pf\<rparr>,
            push_waitUntil = Inr ()\<rparr>)"
  by (simp add: push_handler_def Let_def push_options_def push_actions_def
      merged_lookup_object [OF assms] default_fields catch_p_def then_p_def
      showNotification_def split: sum.splits option.splits)

lemma push_handler_absent:
  "push_handler pf None =
     Inr \<lparr>shown_title = Some (JStr ''CricStreamZone''),
            shown_options =
              \<lparr>body = Some (JStr ''New cricket match update!''),
               icon = Some (JStr ''https://i.postimg.cc/3rPWWckN/icon-192.png''),
               badge = Some (JStr ''https://i.postimg.cc/3rPWWckN/icon-192.png''),
               vibrate = [200, 100, 200, 100, 200],
               data = JObj
                 [(''dateOfArrival'', JNum (real (Date_now_arrival pf))),
                  (''primaryKey'', JNum (Math_random pf)),
                  (''url'', JStr ''/''),
                  (''matchData'', JNull)],
               actions =
                 [\<lparr>action = ''watch'',
                    title = [CHR 0xF0, CHR 0x9F, CHR 0x93, CHR 0xBA] @ '' Watch Live'',
                    button_icon =
                      ''https://i.postimg.cc/BvWg87Rd/videocam-24dp-E3-E3-E3-FILL0-wght400-GRAD0-opsz24.png''\<rparr>,
                   \<lparr>action = ''remind'',
                    title = [CHR 0xE2, CHR 0x8F, CHR 0xB0] @ '' Remind Me'',
                    button_icon =
                      ''https://i.postimg.cc/YC472jwd/radio-24dp-E3-E3-E3-FILL0-wght400-GRAD0-opsz24.png''\<rparr>,
                   \<lparr>action = ''dismiss'',
                    title = [CHR 0xE2, CHR 0x9D, CHR 0x8C] @ '' Dismiss'',
                    button_icon =
                      ''https://i.postimg.cc/K8JDvvxs/live-tv-24dp-E3-E3-E3-FILL0-wght400-GRAD0-opsz24.png''\<rparr>],
               requireInteraction = True,
               silent = False,
               tag = ''cricket-match-general'',
               renotify = True,
               timestamp = Date_now_timestamp pf\<rparr>,
            push_waitUntil = Inr ()\<rparr>"
  by (simp add: push_handler_def Let_def push_options_def push_actions_def notificationData_def
      default_fields js_or_def catch_p_def then_p_def showNotification_def)

text \<open>
  What the tag is made of, by the kind of value the payload gives as \<open>matchId\<close>.
\<close>

lemma push_object_whole:
  assumes "JSON_parse pf payload = Some (JObj kvs)" and "distinct (map fst kvs)"
  shows "(\<forall>matchId.
              to_string (Number_toString pf) (js_or (map_of kvs ''matchId'') (JStr ''general'')) = Inr matchId \<longrightarrow>
              push_handler pf (Some payload) =
                Inr \<lparr>shown_title = (case map_of kvs ''title'' of Some v \<Rightarrow> Some v | None \<Rightarrow> Some (JStr ''CricStreamZone'')),
            shown_options =
              \<lparr>body = (case map_of kvs ''body'' of Some v \<Rightarrow> Some v | None \<Rightarrow> Some (JStr ''New cricket match update!'')),
               icon = (case map_of kvs ''icon'' of Some v \<Rightarrow> Some v | None \<Rightarrow> Some (JStr ''https://i.postimg.cc/3rPWWckN/icon-192.png'')),
               badge = (case map_of kvs ''badge'' of Some v \<Rightarrow> Some v | None \<Rightarrow> Some (JStr ''https://i.postimg.cc/3rPWWckN/icon-192.png'')),
               vibrate = [200, 100, 200, 100, 200],
               data = JObj
                 [(''dateOfArrival'', JNum (real (Date_now_arrival pf))),
                  (''primaryKey'', JNum (Math_random pf)),
                  (''url'', js_or (map_of kvs ''url'') (JStr ''/'')),
                  (''matchData'', js_or (map_of kvs ''matchData'') JNull)],
               actions =
                 [\<lparr>action = ''watch'',
                    title = [CHR 0xF0, CHR 0x9F, CHR 0x93, CHR 0xBA] @ '' Watch Live'',
                    button_icon =
                      ''https://i.postimg.cc/BvWg87Rd/videocam-24dp-E3-E3-E3-FILL0-wght400-GRAD0-opsz24.png''\<rparr>,
                   \<lparr>action = ''remind'',
                    title = [CHR 0xE2, CHR 0x8F, CHR 0xB0] @ '' Remind Me'',
                    button_icon =
                      ''https://i.postimg.cc/YC472jwd/radio-24dp-E3-E3-E3-FILL0-wght400-GRAD0-opsz24.png''\<rparr>,
                   \<lparr>action = ''dismiss'',
                    title = [CHR 0xE2, CHR 0x9D, CHR 0x8C] @ '' Dismiss'',
                    button_icon =
                      ''https://i.postimg.cc/K8JDvvxs/live-tv-24dp-E3-E3-E3-FILL0-wght400-GRAD0-opsz24.png''\<rparr>],
               requireInteraction = True,
               silent = False,
               tag = ''cricket-match-'' @ matchId,
               renotify = True,
               timestamp = Date_now_timestamp pf\<rparr>,
            push_waitUntil = Inr ()\<rparr>)"
  by (simp add: push_handler_object [OF assms])

lemma push_object_throws:
  assumes "JSON_parse pf payload = Some (JObj kvs)" and "distinct (map fst kvs)"
  shows "(\<forall>e. to_string (Number_toString pf) (js_or (map_of kvs ''matchId'') (JStr ''general'')) = Inl e \<longrightarrow>
              push_handler pf (Some payload) = Inl e)"
  by (simp add: push_handler_object [OF assms])

lemma push_object_falsy:
  assumes "JSON_parse pf payload = Some (JObj kvs)" and "distinct (map fst kvs)"
  shows "(map_of kvs ''matchId'' \<in> {None, Some JNull, Some (JBool False), Some (JNum 0), Some (JStr [])} \<longrightarrow>
              (\<exists>res. push_handler pf (Some payload) = Inr res
                  \<and> tag (shown_options res) = ''cricket-match-general''))"
  by (auto simp: push_handler_object [OF assms] js_or_def)

lemma push_object_str:
  assumes "JSON_parse pf payload = Some (JObj kvs)" and "distinct (map fst kvs)"
  shows "(\<forall>s. map_of kvs ''matchId'' = Some (JStr s) \<and> s \<noteq> [] \<longrightarrow>
              (\<exists>res. push_handler pf (Some payload) = Inr res
                  \<and> tag (shown_options res) = ''cricket-match-'' @ s))"
  by (auto simp: push_handler_object [OF assms] js_or_def)

lemma push_object_num:
  assumes "JSON_parse pf payload = Some (JObj kvs)" and "distinct (map fst kvs)"
  shows "(\<forall>n. map_of kvs ''matchId'' = Some (JNum n) \<and> n \<noteq> 0 \<longrightarrow>
              (\<exists>res. push_handler pf (Some payload) = Inr res
                  \<and> tag (shown_options res) = ''cricket-match-'' @ Number_toString pf n))"
  by (auto simp: push_handler_object [OF assms] js_or_def)

lemma push_object_bool:
  assumes "JSON_parse pf payload = Some (JObj kvs)" and "distinct (map fst kvs)"
  shows "(map_of kvs ''matchId'' = Some (JBool True) \<longrightarrow>
              (\<exists>res. push_handler pf (Some payload) = Inr res
                  \<and> tag (shown_options res) = ''cricket-match-true''))"
  by (auto simp: push_handler_object [OF assms] js_or_def)

lemma push_object_obj:
  assumes "JSON_parse pf payload = Some (JObj kvs)" and "distinct (map fst kvs)"
  shows "(\<forall>m. map_of kvs ''matchId'' = Some (JObj m) \<and> ''toString'' \<notin> set (map fst m) \<longrightarrow>
              (\<exists>res. push_handler pf (Some payload) = Inr res
                  \<and> tag (shown_options res) = ''cricket-match-[object Object]''))"
  by (auto simp: push_handler_object [OF assms] js_or_def)

lemma push_object_unprintable:
  assumes "JSON_parse pf payload = Some (JObj kvs)" and "distinct (map fst kvs)"
  shows "(\<forall>m. map_of kvs ''matchId'' = Some (JObj m) \<and> ''toString'' \<in> set (map fst m) \<longrightarrow>
              push_handler pf (Some payload) = Inl TypeError)"
  by (auto simp: push_handler_object [OF assms] js_or_def)

lemma push_object_arr:
  assumes "JSON_parse pf payload = Some (JObj kvs)" and "distinct (map fst kvs)"
  shows "(map_of kvs ''matchId'' = Some (JArr [JStr ''a'', JNull, JStr ''b'']) \<longrightarrow>
              (\<exists>res. push_handler pf (Some payload) = Inr res
                  \<and> tag (shown_options res) = ''cricket-match-a,,b''))"
  by (auto simp: push_handler_object [OF assms] js_or_def)

lemma push_object_arr_unprintable:
  assumes "JSON_parse pf payload = Some (JObj kvs)" and "distinct (map fst kvs)"
  shows "(map_of kvs ''matchId'' = Some (JArr [JStr ''a'', JObj [(''toString'', JNull)]]) \<longrightarrow>
              push_handler pf (Some payload) = Inl TypeError)"
  by (auto simp: push_handler_object [OF assms] js_or_def)

lemma push_object_all:
  assumes "JSON_parse pf payload = Some (JObj kvs)" and "distinct (map fst kvs)"
  shows "(\<forall>matchId.
              to_string (Number_toString pf) (js_or (map_of kvs ''matchId'') (JStr ''general'')) = Inr matchId \<longrightarrow>
              push_handler pf (Some payload) =
                Inr \<lparr>shown_title = (case map_of kvs ''title'' of Some v \<Rightarrow> Some v | None \<Rightarrow> Some (JStr ''CricStreamZone'')),
            shown_options =
              \<lparr>body = (case map_of kvs ''body'' of Some v \<Rightarrow> Some v | None \<Rightarrow> Some (JStr ''New cricket match update!'')),
               icon = (case map_of kvs ''icon'' of Some v \<Rightarrow> Some v | None \<Rightarrow> Some (JStr ''https://i.postimg.cc/3rPWWckN/icon-192.png'')),
               badge = (case map_of kvs ''badge'' of Some v \<Rightarrow> Some v | None \<Rightarrow> Some (JStr ''https://i.postimg.cc/3rPWWckN/icon-192.png'')),
               vibrate = [200, 100, 200, 100, 200],
               data = JObj
                 [(''dateOfArrival'', JNum (real (Date_now_arrival pf))),
                  (''primaryKey'', JNum (Math_random pf)),
                  (''url'', js_or (map_of kvs ''url'') (JStr ''/'')),
                  (''matchData'', js_or (map_of kvs ''matchData'') JNull)],
               actions =
                 [\<lparr>action = ''watch'',
                    title = [CHR 0xF0, CHR 0x9F, CHR 0x93, CHR 0xBA] @ '' Watch Live'',
                    button_icon =
                      ''https://i.postimg.cc/BvWg87Rd/videocam-24dp-E3-E3-E3-FILL0-wght400-GRAD0-opsz24.png''\<rparr>,
                   \<lparr>action = ''remind'',
                    title = [CHR 0xE2, CHR 0x8F, CHR 0xB0] @ '' Remind Me'',
                    button_icon =
                      ''https://i.postimg.cc/YC472jwd/radio-24dp-E3-E3-E3-FILL0-wght400-GRAD0-opsz24.png''\<rparr>,
                   \<lparr>action = ''dismiss'',
                    title = [CHR 0xE2, CHR 0x9D, CHR 0x8C] @ '' Dismiss'',
                    button_icon =
                      ''https://i.postimg.cc/K8JDvvxs/live-tv-24dp-E3-E3-E3-FILL0-wght400-GRAD0-opsz24.png''\<rparr>],
               requireInteraction = True,
               silent = False,
               tag = ''cricket-match-'' @ matchId,
               renotify = True,
               timestamp = Date_now_timestamp pf\<rparr>,
            push_waitUntil = Inr ()\<rparr>)
          \<and> (\<forall>e. to_string (Number_toString pf) (js_or (map_of kvs ''matchId'') (JStr ''general'')) = Inl e \<longrightarrow>
              push_handler pf (Some payload) = Inl e)
          \<and> (map_of kvs ''matchId'' \<in> {None, Some JNull, Some (JBool False), Some (JNum 0), Some (JStr [])} \<longrightarrow>
              (\<exists>res. push_handler pf (Some payload) = Inr res
                  \<and> tag (shown_options res) = ''cricket-match-general''))
          \<and> (\<forall>s. map_of kvs ''matchId'' = Some (JStr s) \<and> s \<noteq> [] \<longrightarrow>
              (\<exists>res. push_handler pf (Some payload) = Inr res
                  \<and> tag (shown_options res) = ''cricket-match-'' @ s))
          \<and> (\<forall>n. map_of kvs ''matchId'' = Some (JNum n) \<and> n \<noteq> 0 \<longrightarrow>
              (\<exists>res. push_handler pf (Some payload) = Inr res
                  \<and> tag (shown_options res) = ''cricket-match-'' @ Number_toString pf n))
          \<and> (map_of kvs ''matchId'' = Some (JBool True) \<longrightarrow>
              (\<exists>res. push_handler pf (Some payload) = Inr res
                  \<and> tag (shown_options res) = ''cricket-match-true''))
          \<and> (\<forall>m. map_of kvs ''matchId'' = Some (JObj m) \<and> ''toString'' \<notin> set (map fst m) \<longrightarrow>
              (\<exists>res. push_handler pf (Some payload) = Inr res
                  \<and> tag (shown_options res) = ''cricket-match-[object Object]''))
          \<and> (\<forall>m. map_of kvs ''matchId'' = Some (JObj m) \<and> ''toString'' \<in> set (map fst m) \<longrightarrow>
              push_handler pf (Some payload) = Inl TypeError)
          \<and> (map_of kvs ''matchId'' = Some (JArr [JStr ''a'', JNull, JStr ''b'']) \<longrightarrow>
              (\<exists>res. push_handler pf (Some payload) = Inr res
                  \<and> tag (shown_options res) = ''cricket-match-a,,b''))
          \<and> (map_of kvs ''matchId'' = Some (JArr [JStr ''a'', JObj [(''toString'', JNull)]]) \<longrightarrow>
              push_handler pf (Some payload) = Inl TypeError)"
  by (intro conjI)
    (rule push_object_whole [OF assms] push_object_throws [OF assms] push_object_falsy [OF assms] push_object_str [OF assms] push_object_num [OF assms] push_object_bool [OF assms] push_object_obj [OF assms] push_object_unprintable [OF assms] push_object_arr [OF assms] push_object_arr_unprintable [OF assms])+

lemma map_of_set_body:
  "map_of (set_prop ''body'' v default_notificationData) k =
     (if k = ''body'' then Some v else map_of default_notificationData k)"
  by (simp add: map_of_set_prop)

section \<open>Facts about the window search\<close>

lemma find_first: "\<lbrakk>\<forall>x \<in> set pre. \<not> P x; P c\<rbrakk> \<Longrightarrow> find P (pre @ c # post) = Some c"
  by (induction pre) auto

lemma find_none: "\<forall>x \<in> set xs. \<not> P x \<Longrightarrow> find P xs = None"
  by (simp add: find_None_iff)

lemma watch_no_window:
  assumes "\<forall>x \<in> set (matchAll True). \<not> str_includes (client_url x) origin"
  shows "notificationclick_handler numstr origin matchAll ''watch'' d =
     NotificationClose # MatchAll True #
     (case to_string numstr (urlToOpen d) of
        Inr target \<Rightarrow> [OpenWindow (target @ ''?action=watch'')]
      | Inl e \<Rightarrow> [Reject e])"
  using find_none [OF assms] by (simp add: notificationclick_handler_def)

section \<open>Facts about the concrete inputs\<close>

lemma ex_api_dynamic: "is_dynamic ex_api"
  by (simp add: is_dynamic_def ex_api_def)

lemma ex_api_post_dynamic: "is_dynamic ex_api_post"
  by (simp add: is_dynamic_def ex_api_post_def)

lemma ex_page_static: "\<not> is_dynamic ex_page"
  by (simp add: is_dynamic_def ex_page_def)

lemma ex_form_post_static: "\<not> is_dynamic ex_form_post"
  by (simp add: is_dynamic_def ex_form_post_def)

text \<open>
  What object spread copies from a payload that is not an object: the characters of a string
  and the elements of an array under their indices, and nothing from a number, a boolean or
  null.
\<close>

lemma own_props_examples:
  "own_props (JStr ''hi'') = [(''0'', JStr ''h''), (''1'', JStr ''i'')]"
  "own_props (JArr [JNum 7, JNull]) = [(''0'', JNum 7), (''1'', JNull)]"
  "own_props (JNum 7) = []"
  "own_props JNull = []"
  "own_props (JBool True) = []"
  by (simp_all add: upt_rec digits.simps char_of_def bit_Suc_0_iff)

text \<open>
  What \<^verbatim>\<open>cache.addAll\<close> does with one address: a partial answer, an answer outside the 2xx
  range and an address that is not http(s) reject with a TypeError, a network failure with
  that failure, each leaving the bucket as it was; an acceptable answer is stored.
\<close>

lemma cache_addAll_examples:
  "cache_addAll (net_answers ex_partial) [''https://app.example/''] CACHE_NAME
     [(CACHE_NAME, [])] = (Inl TypeError, [(CACHE_NAME, [])])"
  "cache_addAll (net_answers ex_not_found) [''https://app.example/''] CACHE_NAME
     [(CACHE_NAME, [])] = (Inl TypeError, [(CACHE_NAME, [])])"
  "cache_addAll (net_answers ex_fresh) [''chrome-extension://app/''] CACHE_NAME
     [(CACHE_NAME, [])] = (Inl TypeError, [(CACHE_NAME, [])])"
  "cache_addAll net_down [''https://app.example/''] CACHE_NAME
     [(CACHE_NAME, [])] = (Inl NetworkError, [(CACHE_NAME, [])])"
  "cache_addAll (net_answers ex_fresh) [''https://app.example/''] CACHE_NAME
     [(CACHE_NAME, [])] = (Inr (), [(CACHE_NAME, [(''https://app.example/'', ex_fresh)])])"
  by (simp_all add: cache_addAll_def http_scheme_def addAll_accepts_def net_answers_def
      net_down_def ex_partial_def ex_not_found_def cache_store_def bucket_put_def,
      simp_all add: ex_fresh_def)

text \<open>
  An install on empty storage with every manifest address answered: the bucket is created and
  holds the eight addresses in manifest order, the worker skips waiting, and the three lines
  of the success path are logged.
\<close>

lemma install_success_example:
  "install_handler ex_origin (net_answers ex_fresh) [] =
     \<lparr>waitUntil = Inr (),
      storage =
        [(CACHE_NAME,
          [(''https://app.example/'', ex_fresh),
           (''https://app.example/index.html'', ex_fresh),
           (''https://app.example/manifest.json'', ex_fresh),
           (''https://cdnjs.cloudflare.com/ajax/libs/bodymovin/5.7.4/lottie.min.js'', ex_fresh),
           (''https://i.postimg.cc/3rPWWckN/icon-192.png'', ex_fresh),
           (''https://i.postimg.cc/BvWg87Rd/videocam-24dp-E3-E3-E3-FILL0-wght400-GRAD0-opsz24.png'',
            ex_fresh),
           (''https://i.postimg.cc/K8JDvvxs/live-tv-24dp-E3-E3-E3-FILL0-wght400-GRAD0-opsz24.png'',
            ex_fresh),
           (''https://i.postimg.cc/YC472jwd/radio-24dp-E3-E3-E3-FILL0-wght400-GRAD0-opsz24.png'',
            ex_fresh)])],
      skipWaiting = True,
      console = [''Service Worker installing...'', ''Caching app shell'',
                 ''Service Worker installed successfully'']\<rparr>"
proof -
  have accepted: "addAll_accepts ex_fresh"
    by (simp add: addAll_accepts_def ex_fresh_def)
  show ?thesis
    by (simp add: install_handler_def Let_def cache_addAll_def caches_open_def caches_keys_def
        urlsToCache_def resolve_def accepted http_scheme_def then_p_def catch_p_def
        ex_origin_def net_answers_def cache_store_def bucket_put_def)
qed

section \<open>The claims\<close>

subsection \<open>Seed\<close>

text \<open>
  Claim C1 (the install is aborted when a manifest fetch fails). On a network where one
  icon of the manifest cannot be fetched, \<open>cache.addAll\<close> rejects and writes nothing:
  the bucket, opened before, stays empty, \<open>skipWaiting\<close> is not called, and the handler
  logs that the installation failed. The promise given to \<open>event.waitUntil\<close> fulfils all
  the same, because the handler's \<open>catch\<close> returns normally; so the platform takes the
  install as succeeded and the worker is installed over an empty bucket.
\<close>

theorem install_fetch_failure_still_fulfils:
  "install_handler ex_origin net_without_icon [] =
     \<lparr>waitUntil = Inr (),
      storage = [(CACHE_NAME, [])],
      skipWaiting = False,
      console = [''Service Worker installing...'', ''Caching app shell'',
                 ''Service Worker installation failed:'']\<rparr>"
  by (simp add: install_handler_def Let_def cache_addAll_def caches_open_def caches_keys_def
      urlsToCache_def resolve_def addAll_accepts_def http_scheme_def then_p_def catch_p_def
      ex_origin_def net_without_icon_def ex_fresh_def)

subsection \<open>Serve\<close>

text \<open>
  A POST to the data endpoint is answered by the network and nothing is stored: the put
  is refused. And when an older bucket holds the URL too, the fallback answers with the
  older bucket's response, not with the one the current bucket holds.
\<close>

theorem dynamic_put_refused_and_older_bucket_answers:
  "is_dynamic ex_api_post
   \<and> respond (fetch_handler (net_answers ex_fresh) [(CACHE_NAME, [])] ex_api_post) =
       Inr (Some ex_fresh)
   \<and> fr_storage (fetch_handler (net_answers ex_fresh) [(CACHE_NAME, [])] ex_api_post) =
       [(CACHE_NAME, [])]
   \<and> is_dynamic ex_api
   \<and> cache_match
        [(''cricstreamzone-v1.0.5'', [(url ex_api, ex_stored)]),
         (CACHE_NAME, [(url ex_api, ex_fresh)])] CACHE_NAME ex_api = Some ex_fresh
   \<and> respond (fetch_handler net_down
        [(''cricstreamzone-v1.0.5'', [(url ex_api, ex_stored)]),
         (CACHE_NAME, [(url ex_api, ex_fresh)])] ex_api) = Inr (Some ex_stored)
   \<and> ex_stored \<noteq> ex_fresh"
proof -
  have refused: "\<not> put_accepts ex_api_post ex_fresh"
    by (simp add: put_accepts_def ex_api_post_def)
  have post: "respond (fetch_handler (net_answers ex_fresh) [(CACHE_NAME, [])] ex_api_post) =
       Inr (Some ex_fresh)
   \<and> fr_storage (fetch_handler (net_answers ex_fresh) [(CACHE_NAME, [])] ex_api_post) =
       [(CACHE_NAME, [])]"
    using refused
    by (simp add: ex_api_post_dynamic fetch_handler_def fetch_def net_answers_def
        open_and_put_refused caches_open_def caches_keys_def)
  have bucket: "cache_match
        [(''cricstreamzone-v1.0.5'', [(url ex_api, ex_stored)]),
         (CACHE_NAME, [(url ex_api, ex_fresh)])] CACHE_NAME ex_api = Some ex_fresh"
    by (simp add: cache_match_def caches_match_def ex_api_def CACHE_NAME_def)
  have older: "respond (fetch_handler net_down
        [(''cricstreamzone-v1.0.5'', [(url ex_api, ex_stored)]),
         (CACHE_NAME, [(url ex_api, ex_fresh)])] ex_api) = Inr (Some ex_stored)"
    by (simp add: ex_api_dynamic fetch_handler_def fetch_def net_down_def caches_match_def
        ex_api_def)
  have differ: "ex_stored \<noteq> ex_fresh"
    by (simp add: ex_stored_def ex_fresh_def)
  show ?thesis
    using ex_api_post_dynamic ex_api_dynamic post bucket older differ by blast
qed

text \<open>
  Claim C2 (network first for dynamic requests), as amended. For a request classified
  as dynamic: when the network answers, the handler answers with the network's response,
  and the current bucket then holds that response under the request's URL provided the
  request is a GET for an http or https URL and the response is neither partial (206)
  nor varies on \<open>*\<close>; otherwise the put is refused and nothing is stored. When the
  network fails, the handler answers with what \<open>caches.match\<close> finds for the request
  in the whole storage, which is the entry of the current bucket whenever no bucket of
  another name holds the URL; when it finds nothing, the handler answers \<open>undefined\<close>
  and the requester gets a network error. The requester gets a response the handler
  answers with when the platform accepts that response for the request.
\<close>

theorem dynamic_network_first:
  assumes "is_dynamic req"
  shows "(net (http_method req) (url req) = Some resp \<longrightarrow>
            respond (fetch_handler net st req) = Inr (Some resp)
          \<and> respondWith acceptable req (respond (fetch_handler net st req)) =
              (if acceptable req resp then Inr resp else Inl NetworkError)
          \<and> (put_accepts req resp \<longrightarrow>
                cache_match (fr_storage (fetch_handler net st req)) CACHE_NAME req = Some resp
              \<and> unhandled (fetch_handler net st req) = [])
          \<and> (\<not> put_accepts req resp \<longrightarrow>
                fr_storage (fetch_handler net st req) = caches_open CACHE_NAME st
              \<and> unhandled (fetch_handler net st req) = [TypeError]))
       \<and> (net (http_method req) (url req) = None \<longrightarrow>
            respond (fetch_handler net st req) = Inr (caches_match st req)
          \<and> fr_storage (fetch_handler net st req) = st
          \<and> (\<forall>old. caches_match st req = Some old \<longrightarrow>
                respondWith acceptable req (respond (fetch_handler net st req)) =
                  (if acceptable req old then Inr old else Inl NetworkError))
          \<and> (caches_match st req = None \<longrightarrow>
                respondWith acceptable req (respond (fetch_handler net st req)) =
                  Inl NetworkError))
       \<and> ((\<forall>nb \<in> set st. fst nb \<noteq> CACHE_NAME \<longrightarrow> map_of (snd nb) (url req) = None) \<longrightarrow>
            caches_match st req = cache_match st CACHE_NAME req)
       \<and> put_accepts req resp =
           (http_method req = ''GET''
            \<and> (startsWith (url req) ''http://'' \<or> startsWith (url req) ''https://'')
            \<and> status resp \<noteq> 206 \<and> \<not> vary_star resp)"
proof -
  have answered: "respond (fetch_handler net st req) = Inr (Some resp)
          \<and> respondWith acceptable req (respond (fetch_handler net st req)) =
              (if acceptable req resp then Inr resp else Inl NetworkError)
          \<and> (put_accepts req resp \<longrightarrow>
                cache_match (fr_storage (fetch_handler net st req)) CACHE_NAME req = Some resp
              \<and> unhandled (fetch_handler net st req) = [])
          \<and> (\<not> put_accepts req resp \<longrightarrow>
                fr_storage (fetch_handler net st req) = caches_open CACHE_NAME st
              \<and> unhandled (fetch_handler net st req) = [TypeError])"
    if "net (http_method req) (url req) = Some resp"
    using assms that
    by (auto simp: fetch_handler_def fetch_def respondWith_def open_and_put_accepted
        open_and_put_refused rejections_def cache_match_store_open put_accepts_GET)
  have failed: "respond (fetch_handler net st req) = Inr (caches_match st req)
          \<and> fr_storage (fetch_handler net st req) = st
          \<and> (\<forall>old. caches_match st req = Some old \<longrightarrow>
                respondWith acceptable req (respond (fetch_handler net st req)) =
                  (if acceptable req old then Inr old else Inl NetworkError))
          \<and> (caches_match st req = None \<longrightarrow>
                respondWith acceptable req (respond (fetch_handler net st req)) =
                  Inl NetworkError)"
    if "net (http_method req) (url req) = None"
    using assms that
    by (simp add: fetch_handler_def fetch_def respondWith_def)
  have bucket: "caches_match st req = cache_match st CACHE_NAME req"
    if "\<forall>nb \<in> set st. fst nb \<noteq> CACHE_NAME \<longrightarrow> map_of (snd nb) (url req) = None"
    using that by (rule caches_match_no_other)
  have accepts: "put_accepts req resp =
           (http_method req = ''GET''
            \<and> (startsWith (url req) ''http://'' \<or> startsWith (url req) ''https://'')
            \<and> status resp \<noteq> 206 \<and> \<not> vary_star resp)"
    by (simp add: put_accepts_def http_scheme_def)
  show ?thesis
    using answered failed bucket accepts by blast
qed

theorem dynamic_network_first_witness:
  "is_dynamic ex_api
   \<and> respond (fetch_handler (net_answers ex_fresh)
        [(CACHE_NAME, [(url ex_api, ex_stored)])] ex_api) = Inr (Some ex_fresh)
   \<and> cache_match (fr_storage (fetch_handler (net_answers ex_fresh)
        [(CACHE_NAME, [(url ex_api, ex_stored)])] ex_api)) CACHE_NAME ex_api = Some ex_fresh
   \<and> fr_storage (fetch_handler (net_answers ex_fresh) [(CACHE_NAME, [])] ex_api_post) =
        caches_open CACHE_NAME [(CACHE_NAME, [])]
   \<and> unhandled (fetch_handler (net_answers ex_fresh) [(CACHE_NAME, [])] ex_api_post) =
        [TypeError]
   \<and> respondWith accept_all ex_api (respond (fetch_handler net_down
        [(CACHE_NAME, [(url ex_api, ex_stored)])] ex_api)) =
        (if accept_all ex_api ex_stored then Inr ex_stored else Inl NetworkError)
   \<and> accept_all ex_api ex_stored
   \<and> respondWith accept_all ex_api (respond (fetch_handler net_down [] ex_api)) =
        Inl NetworkError"
proof -
  have accepted: "put_accepts ex_api ex_fresh"
    by (simp add: put_accepts_def http_scheme_def ex_api_def ex_fresh_def)
  have refused: "\<not> put_accepts ex_api_post ex_fresh"
    by (simp add: put_accepts_def ex_api_post_def)
  have held: "caches_match [(CACHE_NAME, [(url ex_api, ex_stored)])] ex_api = Some ex_stored"
    by (simp add: caches_match_def ex_api_def)
  have missed: "caches_match [] ex_api = None"
    by (simp add: caches_match_def)
  have up: "net_answers ex_fresh (http_method ex_api) (url ex_api) = Some ex_fresh"
    by (simp add: net_answers_def)
  have up_post: "net_answers ex_fresh (http_method ex_api_post) (url ex_api_post) = Some ex_fresh"
    by (simp add: net_answers_def)
  have down: "net_down (http_method ex_api) (url ex_api) = None"
    by (simp add: net_down_def)
  have ok: "accept_all ex_api ex_stored"
    by (simp add: accept_all_def)
  note get = dynamic_network_first [OF ex_api_dynamic, where net = "net_answers ex_fresh"
      and resp = ex_fresh and st = "[(CACHE_NAME, [(url ex_api, ex_stored)])]"
      and acceptable = accept_all, THEN conjunct1, THEN mp, OF up]
  note post = dynamic_network_first [OF ex_api_post_dynamic,
      where net = "net_answers ex_fresh" and resp = ex_fresh and st = "[(CACHE_NAME, [])]"
      and acceptable = accept_all, THEN conjunct1, THEN mp, OF up_post]
  note fallback = dynamic_network_first [OF ex_api_dynamic, where net = net_down
      and resp = ex_fresh and st = "[(CACHE_NAME, [(url ex_api, ex_stored)])]"
      and acceptable = accept_all, THEN conjunct2, THEN conjunct1, THEN mp, OF down]
  note lost = dynamic_network_first [OF ex_api_dynamic, where net = net_down
      and resp = ex_fresh and st = "[]" and acceptable = accept_all,
      THEN conjunct2, THEN conjunct1, THEN mp, OF down]
  note answered = get [THEN conjunct1]
  note stored = get [THEN conjunct2, THEN conjunct2, THEN conjunct1, THEN mp, OF accepted,
      THEN conjunct1]
  note not_stored = post [THEN conjunct2, THEN conjunct2, THEN conjunct2, THEN mp, OF refused]
  note served = fallback [THEN conjunct2, THEN conjunct2, THEN conjunct1, THEN spec, THEN mp,
      OF held]
  note failed = lost [THEN conjunct2, THEN conjunct2, THEN conjunct2, THEN mp, OF missed]
  show ?thesis
    by (intro conjI)
      (rule ex_api_dynamic answered stored not_stored [THEN conjunct1]
         not_stored [THEN conjunct2] served ok failed)+
qed

text \<open>
  The answer at the end of a followed redirect is same-origin with status 200 and is
  cached like a direct answer. And a same-origin 200 answer to a POST is not stored: the
  put is refused.
\<close>

theorem static_miss_redirect_cached_and_post_not_stored:
  "\<not> is_dynamic ex_page
   \<and> caches_match [(CACHE_NAME, [])] ex_page = None
   \<and> redirected ex_redirected
   \<and> cache_match (fr_storage (fetch_handler (net_answers ex_redirected)
        [(CACHE_NAME, [])] ex_page)) CACHE_NAME ex_page = Some ex_redirected
   \<and> \<not> is_dynamic ex_form_post
   \<and> status ex_fresh = 200 \<and> rtype ex_fresh = Basic
   \<and> respond (fetch_handler (net_answers ex_fresh) [(CACHE_NAME, [])] ex_form_post) =
       Inr (Some ex_fresh)
   \<and> fr_storage (fetch_handler (net_answers ex_fresh) [(CACHE_NAME, [])] ex_form_post) =
       [(CACHE_NAME, [])]"
proof -
  have miss: "caches_match [(CACHE_NAME, [])] ex_page = None"
    by (simp add: caches_match_def)
  have accepted: "put_accepts ex_page ex_redirected"
    by (simp add: put_accepts_def http_scheme_def ex_page_def ex_redirected_def)
  have flag: "redirected ex_redirected"
    by (simp add: ex_redirected_def)
  have cached: "cache_match (fr_storage (fetch_handler (net_answers ex_redirected)
        [(CACHE_NAME, [])] ex_page)) CACHE_NAME ex_page = Some ex_redirected"
    using accepted
    by (simp add: ex_page_static miss fetch_handler_def fetch_def net_answers_def
        open_and_put_accepted cache_match_store_open put_accepts_GET ex_redirected_def)
  have refused: "\<not> put_accepts ex_form_post ex_fresh"
    by (simp add: put_accepts_def ex_form_post_def)
  have fresh: "status ex_fresh = 200 \<and> rtype ex_fresh = Basic"
    by (simp add: ex_fresh_def)
  have post: "respond (fetch_handler (net_answers ex_fresh) [(CACHE_NAME, [])] ex_form_post) =
       Inr (Some ex_fresh)
   \<and> fr_storage (fetch_handler (net_answers ex_fresh) [(CACHE_NAME, [])] ex_form_post) =
       [(CACHE_NAME, [])]"
    using refused fresh
    by (simp add: ex_form_post_static fetch_handler_def fetch_def net_answers_def
        caches_match_def ex_form_post_def open_and_put_def cache_put_def caches_open_def
        caches_keys_def)
  show ?thesis
    using ex_page_static miss flag cached ex_form_post_static fresh post by blast
qed

text \<open>
  Claim C3 (what a static miss caches), as amended. For a request classified as static
  that \<open>caches.match\<close> does not find in the whole storage (as when the current bucket
  lacks the URL and no other bucket holds it, and always for a request that is not a
  GET), the network's response is returned to the requester. When it has status 200 and
  type \<open>basic\<close>, whether or not a redirect was followed to reach it, the current bucket
  then holds it under the request's URL provided the request is a GET for an http or
  https URL and the response does not vary on \<open>*\<close>; otherwise the put is refused and
  nothing is stored. When its status is not 200 or its type is not \<open>basic\<close>, which is
  the case of a cross-origin response (type \<open>cors\<close> or \<open>opaque\<close>), of an unfollowed
  redirect (type \<open>opaqueredirect\<close>) and of an error, the storage is unchanged.
\<close>

theorem static_miss_caches_basic_200_only:
  assumes "\<not> is_dynamic req" and "net (http_method req) (url req) = Some resp"
  shows "(caches_match st req = None \<longrightarrow>
            respond (fetch_handler net st req) = Inr (Some resp)
          \<and> fetched (fetch_handler net st req) = [url req]
          \<and> (status resp = 200 \<and> rtype resp = Basic \<and> put_accepts req resp \<longrightarrow>
                cache_match (fr_storage (fetch_handler net st req)) CACHE_NAME req = Some resp
              \<and> unhandled (fetch_handler net st req) = [])
          \<and> (status resp = 200 \<and> rtype resp = Basic \<and> \<not> put_accepts req resp \<longrightarrow>
                fr_storage (fetch_handler net st req) = caches_open CACHE_NAME st
              \<and> unhandled (fetch_handler net st req) = [TypeError])
          \<and> (status resp \<noteq> 200 \<or> rtype resp \<noteq> Basic \<longrightarrow>
                fr_storage (fetch_handler net st req) = st
              \<and> unhandled (fetch_handler net st req) = []))
       \<and> (cache_match st CACHE_NAME req = None
            \<and> (\<forall>nb \<in> set st. fst nb \<noteq> CACHE_NAME \<longrightarrow> map_of (snd nb) (url req) = None) \<longrightarrow>
            caches_match st req = None)
       \<and> (http_method req \<noteq> ''GET'' \<longrightarrow> caches_match st req = None)
       \<and> (status resp = 200 \<longrightarrow>
            put_accepts req resp =
              (http_method req = ''GET''
               \<and> (startsWith (url req) ''http://'' \<or> startsWith (url req) ''https://'')
               \<and> \<not> vary_star resp))"
proof -
  have miss: "respond (fetch_handler net st req) = Inr (Some resp)
          \<and> fetched (fetch_handler net st req) = [url req]
          \<and> (status resp = 200 \<and> rtype resp = Basic \<and> put_accepts req resp \<longrightarrow>
                cache_match (fr_storage (fetch_handler net st req)) CACHE_NAME req = Some resp
              \<and> unhandled (fetch_handler net st req) = [])
          \<and> (status resp = 200 \<and> rtype resp = Basic \<and> \<not> put_accepts req resp \<longrightarrow>
                fr_storage (fetch_handler net st req) = caches_open CACHE_NAME st
              \<and> unhandled (fetch_handler net st req) = [TypeError])
          \<and> (status resp \<noteq> 200 \<or> rtype resp \<noteq> Basic \<longrightarrow>
                fr_storage (fetch_handler net st req) = st
              \<and> unhandled (fetch_handler net st req) = [])"
    if "caches_match st req = None"
    using assms that
    by (auto simp: fetch_handler_def fetch_def open_and_put_accepted open_and_put_refused
        rejections_def cache_match_store_open put_accepts_GET)
  have bucket: "caches_match st req = None"
    if "cache_match st CACHE_NAME req = None"
      and "\<forall>nb \<in> set st. fst nb \<noteq> CACHE_NAME \<longrightarrow> map_of (snd nb) (url req) = None"
    using that caches_match_no_other [of st CACHE_NAME req] by simp
  have not_get: "http_method req \<noteq> ''GET'' \<Longrightarrow> caches_match st req = None"
    by (simp add: caches_match_def)
  have accepts: "status resp = 200 \<Longrightarrow>
            put_accepts req resp =
              (http_method req = ''GET''
               \<and> (startsWith (url req) ''http://'' \<or> startsWith (url req) ''https://'')
               \<and> \<not> vary_star resp)"
    by (simp add: put_accepts_def http_scheme_def)
  show ?thesis
    using miss bucket not_get accepts by blast
qed

theorem static_miss_caches_basic_200_only_witness:
  "\<not> is_dynamic ex_page
   \<and> caches_match [(CACHE_NAME, [])] ex_page = None
   \<and> cache_match (fr_storage (fetch_handler (net_answers ex_fresh) [(CACHE_NAME, [])] ex_page))
        CACHE_NAME ex_page = Some ex_fresh
   \<and> cache_match (fr_storage (fetch_handler (net_answers ex_redirected) [(CACHE_NAME, [])]
        ex_page)) CACHE_NAME ex_page = Some ex_redirected
   \<and> respond (fetch_handler (net_answers ex_not_found) [(CACHE_NAME, [])] ex_page) =
        Inr (Some ex_not_found)
   \<and> fr_storage (fetch_handler (net_answers ex_not_found) [(CACHE_NAME, [])] ex_page) =
        [(CACHE_NAME, [])]
   \<and> fr_storage (fetch_handler (net_answers ex_opaque) [(CACHE_NAME, [])] ex_page) =
        [(CACHE_NAME, [])]
   \<and> fr_storage (fetch_handler (net_answers ex_fresh) [(CACHE_NAME, [])] ex_form_post) =
        caches_open CACHE_NAME [(CACHE_NAME, [])]
   \<and> unhandled (fetch_handler (net_answers ex_fresh) [(CACHE_NAME, [])] ex_form_post) =
        [TypeError]"
proof -
  have miss: "caches_match [(CACHE_NAME, [])] ex_page = None"
    by (simp add: caches_match_def)
  have miss_post: "caches_match [(CACHE_NAME, [])] ex_form_post = None"
    by (simp add: caches_match_def)
  have up: "net_answers r (http_method q) (url q) = Some r" for r q
    by (simp add: net_answers_def)
  have fresh: "status ex_fresh = 200 \<and> rtype ex_fresh = Basic \<and> put_accepts ex_page ex_fresh"
    by (simp add: put_accepts_def http_scheme_def ex_page_def ex_fresh_def)
  have moved: "status ex_redirected = 200 \<and> rtype ex_redirected = Basic
      \<and> put_accepts ex_page ex_redirected"
    by (simp add: put_accepts_def http_scheme_def ex_page_def ex_redirected_def)
  have not_found: "status ex_not_found \<noteq> 200 \<or> rtype ex_not_found \<noteq> Basic"
    by (simp add: ex_not_found_def)
  have opaque: "status ex_opaque \<noteq> 200 \<or> rtype ex_opaque \<noteq> Basic"
    by (simp add: ex_opaque_def)
  have post: "status ex_fresh = 200 \<and> rtype ex_fresh = Basic
      \<and> \<not> put_accepts ex_form_post ex_fresh"
    by (simp add: put_accepts_def ex_form_post_def ex_fresh_def)
  note a = static_miss_caches_basic_200_only [where req = ex_page
      and net = "net_answers ex_fresh" and st = "[(CACHE_NAME, [])]" and resp = ex_fresh,
      OF ex_page_static up, THEN conjunct1, THEN mp, OF miss]
  note b = static_miss_caches_basic_200_only [where req = ex_page
      and net = "net_answers ex_redirected" and st = "[(CACHE_NAME, [])]" and resp = ex_redirected,
      OF ex_page_static up, THEN conjunct1, THEN mp, OF miss]
  note c = static_miss_caches_basic_200_only [where req = ex_page
      and net = "net_answers ex_not_found" and st = "[(CACHE_NAME, [])]" and resp = ex_not_found,
      OF ex_page_static up, THEN conjunct1, THEN mp, OF miss]
  note d = static_miss_caches_basic_200_only [where req = ex_page
      and net = "net_answers ex_opaque" and st = "[(CACHE_NAME, [])]" and resp = ex_opaque,
      OF ex_page_static up, THEN conjunct1, THEN mp, OF miss]
  note e = static_miss_caches_basic_200_only [where req = ex_form_post
      and net = "net_answers ex_fresh" and st = "[(CACHE_NAME, [])]" and resp = ex_fresh,
      OF ex_form_post_static up, THEN conjunct1, THEN mp, OF miss_post]
  note a_stored = a [THEN conjunct2, THEN conjunct2, THEN conjunct1, THEN mp, OF fresh,
      THEN conjunct1]
  note b_stored = b [THEN conjunct2, THEN conjunct2, THEN conjunct1, THEN mp, OF moved,
      THEN conjunct1]
  note c_answer = c [THEN conjunct1]
  note c_same = c [THEN conjunct2, THEN conjunct2, THEN conjunct2, THEN conjunct2, THEN mp,
      OF not_found, THEN conjunct1]
  note d_same = d [THEN conjunct2, THEN conjunct2, THEN conjunct2, THEN conjunct2, THEN mp,
      OF opaque, THEN conjunct1]
  note e_refused = e [THEN conjunct2, THEN conjunct2, THEN conjunct2, THEN conjunct1, THEN mp,
      OF post]
  show ?thesis
    by (intro conjI)
      (rule ex_page_static miss a_stored b_stored c_answer c_same d_same
         e_refused [THEN conjunct1] e_refused [THEN conjunct2])+
qed

text \<open>
  With an older bucket that holds the URL too, the handler answers with the older
  bucket's response, not with the one the current bucket holds.
\<close>

theorem static_hit_older_bucket_answers:
  "\<not> is_dynamic ex_page
   \<and> cache_match
        [(''cricstreamzone-v1.0.5'', [(url ex_page, ex_stored)]),
         (CACHE_NAME, [(url ex_page, ex_fresh)])] CACHE_NAME ex_page = Some ex_fresh
   \<and> respond (fetch_handler net_down
        [(''cricstreamzone-v1.0.5'', [(url ex_page, ex_stored)]),
         (CACHE_NAME, [(url ex_page, ex_fresh)])] ex_page) = Inr (Some ex_stored)
   \<and> ex_stored \<noteq> ex_fresh"
proof -
  have bucket: "cache_match
        [(''cricstreamzone-v1.0.5'', [(url ex_page, ex_stored)]),
         (CACHE_NAME, [(url ex_page, ex_fresh)])] CACHE_NAME ex_page = Some ex_fresh"
    by (simp add: cache_match_def caches_match_def ex_page_def CACHE_NAME_def)
  have found: "caches_match
        [(''cricstreamzone-v1.0.5'', [(url ex_page, ex_stored)]),
         (CACHE_NAME, [(url ex_page, ex_fresh)])] ex_page = Some ex_stored"
    by (simp add: caches_match_def ex_page_def)
  have older: "respond (fetch_handler net_down
        [(''cricstreamzone-v1.0.5'', [(url ex_page, ex_stored)]),
         (CACHE_NAME, [(url ex_page, ex_fresh)])] ex_page) = Inr (Some ex_stored)"
    by (simp add: ex_page_static found fetch_handler_def)
  have differ: "ex_stored \<noteq> ex_fresh"
    by (simp add: ex_stored_def ex_fresh_def)
  show ?thesis
    by (intro conjI) (rule ex_page_static bucket older differ)+
qed

text \<open>
  Claim C4 (cache wins for static requests), as amended. For a request classified as
  static for which \<open>caches.match\<close> finds a stored response in the whole storage, the
  handler answers with that response, issues no network request, starts no put and
  leaves the storage as it was, whatever the network would have answered. That response
  is the one the current bucket holds whenever no bucket of another name holds the URL.
\<close>

theorem static_hit_cache_wins:
  assumes "\<not> is_dynamic req"
  shows "(caches_match st req = Some stored \<longrightarrow>
            fetch_handler net st req =
              \<lparr>respond = Inr (Some stored), fr_storage = st, fetched = [],
               unhandled = []\<rparr>)
       \<and> (cache_match st CACHE_NAME req = Some stored
            \<and> (\<forall>nb \<in> set st. fst nb \<noteq> CACHE_NAME \<longrightarrow> map_of (snd nb) (url req) = None) \<longrightarrow>
            fetch_handler net st req =
              \<lparr>respond = Inr (Some stored), fr_storage = st, fetched = [],
               unhandled = []\<rparr>)"
proof -
  have hit: "fetch_handler net st req =
              \<lparr>respond = Inr (Some stored), fr_storage = st, fetched = [],
               unhandled = []\<rparr>"
    if "caches_match st req = Some stored"
    using assms that by (simp add: fetch_handler_def)
  have bucket: "caches_match st req = Some stored"
    if "cache_match st CACHE_NAME req = Some stored"
      and "\<forall>nb \<in> set st. fst nb \<noteq> CACHE_NAME \<longrightarrow> map_of (snd nb) (url req) = None"
    using that caches_match_no_other [of st CACHE_NAME req] by simp
  show ?thesis
    using hit bucket by blast
qed

theorem static_hit_cache_wins_witness:
  "\<not> is_dynamic ex_page
   \<and> caches_match [(CACHE_NAME, [(url ex_page, ex_stored)])] ex_page = Some ex_stored
   \<and> fetch_handler net_down [(CACHE_NAME, [(url ex_page, ex_stored)])] ex_page =
        \<lparr>respond = Inr (Some ex_stored),
         fr_storage = [(CACHE_NAME, [(url ex_page, ex_stored)])],
         fetched = [], unhandled = []\<rparr>
   \<and> fetch_handler (net_answers ex_fresh) [(CACHE_NAME, [(url ex_page, ex_stored)])] ex_page =
        \<lparr>respond = Inr (Some ex_stored),
         fr_storage = [(CACHE_NAME, [(url ex_page, ex_stored)])],
         fetched = [], unhandled = []\<rparr>
   \<and> cache_match [(CACHE_NAME, [(url ex_page, ex_stored)])] CACHE_NAME ex_page =
        Some ex_stored"
proof -
  have hit: "caches_match [(CACHE_NAME, [(url ex_page, ex_stored)])] ex_page = Some ex_stored"
    by (simp add: caches_match_def ex_page_def)
  have bucket: "cache_match [(CACHE_NAME, [(url ex_page, ex_stored)])] CACHE_NAME ex_page =
        Some ex_stored"
    by (simp add: cache_match_def caches_match_def ex_page_def)
  have alone: "\<forall>nb \<in> set [(CACHE_NAME, [(url ex_page, ex_stored)])].
      fst nb \<noteq> CACHE_NAME \<longrightarrow> map_of (snd nb) (url ex_page) = None"
    by simp
  note down = static_hit_cache_wins [OF ex_page_static, where net = net_down
      and st = "[(CACHE_NAME, [(url ex_page, ex_stored)])]" and stored = ex_stored,
      THEN conjunct1, THEN mp, OF hit]
  note up = static_hit_cache_wins [OF ex_page_static, where net = "net_answers ex_fresh"
      and st = "[(CACHE_NAME, [(url ex_page, ex_stored)])]" and stored = ex_stored,
      THEN conjunct2, THEN mp, OF conjI, OF bucket alone]
  show ?thesis
    by (intro conjI) (rule ex_page_static hit down up bucket)+
qed

text \<open>
  A partial answer (status 206) to a dynamic request is returned to the requester and
  is not stored: the put is refused and the bucket keeps what it held.
\<close>

theorem dynamic_partial_answer_not_stored:
  "is_dynamic ex_api
   \<and> status ex_partial = 206
   \<and> respond (fetch_handler (net_answers ex_partial)
        [(CACHE_NAME, [(url ex_api, ex_stored)])] ex_api) = Inr (Some ex_partial)
   \<and> fr_storage (fetch_handler (net_answers ex_partial)
        [(CACHE_NAME, [(url ex_api, ex_stored)])] ex_api) =
       [(CACHE_NAME, [(url ex_api, ex_stored)])]
   \<and> cache_match (fr_storage (fetch_handler (net_answers ex_partial)
        [(CACHE_NAME, [(url ex_api, ex_stored)])] ex_api)) CACHE_NAME ex_api = Some ex_stored
   \<and> ex_stored \<noteq> ex_partial"
proof -
  have refused: "\<not> put_accepts ex_api ex_partial"
    by (simp add: put_accepts_def ex_partial_def)
  have partial: "status ex_partial = 206"
    by (simp add: ex_partial_def)
  have kept: "respond (fetch_handler (net_answers ex_partial)
        [(CACHE_NAME, [(url ex_api, ex_stored)])] ex_api) = Inr (Some ex_partial)
   \<and> fr_storage (fetch_handler (net_answers ex_partial)
        [(CACHE_NAME, [(url ex_api, ex_stored)])] ex_api) =
       [(CACHE_NAME, [(url ex_api, ex_stored)])]"
    using refused
    by (simp add: ex_api_dynamic fetch_handler_def fetch_def net_answers_def
        open_and_put_refused caches_open_def caches_keys_def)
  have old: "cache_match [(CACHE_NAME, [(url ex_api, ex_stored)])] CACHE_NAME ex_api =
      Some ex_stored"
    by (simp add: cache_match_def caches_match_def ex_api_def)
  have differ: "ex_stored \<noteq> ex_partial"
    by (simp add: ex_stored_def ex_partial_def)
  show ?thesis
    using ex_api_dynamic partial kept old differ by simp
qed

text \<open>
  Claim C10 (the dynamic branch checks nothing before it stores), as amended. For a
  request classified as dynamic, the handler puts every response the network answers
  with, with no check of status, origin or type. The put stores it, replacing what the
  current bucket held under the request's URL, when the request is a GET for an http or
  https URL and the response is neither partial (206) nor varies on \<open>*\<close>: an error
  response such as a 500, a cross-origin one and a redirected one are all stored.
  Otherwise the put is refused and the bucket keeps what it held. The same response on a
  static miss leaves the storage unchanged unless it is \<open>basic\<close> with status 200.
\<close>

theorem dynamic_stores_every_accepted_response:
  assumes "is_dynamic req" and "net (http_method req) (url req) = Some resp"
  shows "(put_accepts req resp \<longrightarrow>
            cache_match (fr_storage (fetch_handler net st req)) CACHE_NAME req = Some resp)
       \<and> (\<not> put_accepts req resp \<longrightarrow>
            fr_storage (fetch_handler net st req) = caches_open CACHE_NAME st
          \<and> cache_match (fr_storage (fetch_handler net st req)) CACHE_NAME req =
              cache_match st CACHE_NAME req)
       \<and> put_accepts req resp =
           (http_method req = ''GET''
            \<and> (startsWith (url req) ''http://'' \<or> startsWith (url req) ''https://'')
            \<and> status resp \<noteq> 206 \<and> \<not> vary_star resp)
       \<and> (\<not> is_dynamic req' \<and> caches_match st req' = None
            \<and> net (http_method req') (url req') = Some resp
            \<and> (status resp \<noteq> 200 \<or> rtype resp \<noteq> Basic) \<longrightarrow>
            fr_storage (fetch_handler net st req') = st)"
proof -
  have stored: "cache_match (fr_storage (fetch_handler net st req)) CACHE_NAME req = Some resp"
    if "put_accepts req resp"
    using assms that
    by (simp add: fetch_handler_def fetch_def open_and_put_accepted cache_match_store_open
        put_accepts_GET)
  have kept: "fr_storage (fetch_handler net st req) = caches_open CACHE_NAME st
          \<and> cache_match (fr_storage (fetch_handler net st req)) CACHE_NAME req =
              cache_match st CACHE_NAME req"
    if "\<not> put_accepts req resp"
    using assms that
    by (simp add: fetch_handler_def fetch_def open_and_put_refused cache_match_open)
  have accepts: "put_accepts req resp =
           (http_method req = ''GET''
            \<and> (startsWith (url req) ''http://'' \<or> startsWith (url req) ''https://'')
            \<and> status resp \<noteq> 206 \<and> \<not> vary_star resp)"
    by (simp add: put_accepts_def http_scheme_def)
  have static: "fr_storage (fetch_handler net st req') = st"
    if "\<not> is_dynamic req'" and "caches_match st req' = None"
      and "net (http_method req') (url req') = Some resp"
      and "status resp \<noteq> 200 \<or> rtype resp \<noteq> Basic"
    using that by (auto simp: fetch_handler_def fetch_def)
  show ?thesis
    using stored kept accepts static by blast
qed

theorem dynamic_stores_every_accepted_response_witness:
  "is_dynamic ex_api
   \<and> net_answers ex_failure (http_method ex_api) (url ex_api) = Some ex_failure
   \<and> status ex_failure = 500 \<and> rtype ex_failure = Cors
   \<and> cache_match [(CACHE_NAME, [(url ex_api, ex_stored)])] CACHE_NAME ex_api = Some ex_stored
   \<and> cache_match (fr_storage (fetch_handler (net_answers ex_failure)
        [(CACHE_NAME, [(url ex_api, ex_stored)])] ex_api)) CACHE_NAME ex_api =
       Some ex_failure
   \<and> fr_storage (fetch_handler (net_answers ex_partial)
        [(CACHE_NAME, [(url ex_api, ex_stored)])] ex_api) =
       caches_open CACHE_NAME [(CACHE_NAME, [(url ex_api, ex_stored)])]
   \<and> fr_storage (fetch_handler (net_answers ex_failure) [(CACHE_NAME, [])] ex_page) =
       [(CACHE_NAME, [])]"
proof -
  have up: "net_answers r (http_method q) (url q) = Some r" for r q
    by (simp add: net_answers_def)
  have failure: "status ex_failure = 500 \<and> rtype ex_failure = Cors"
    by (simp add: ex_failure_def)
  have accepted: "put_accepts ex_api ex_failure"
    by (simp add: put_accepts_def http_scheme_def ex_api_def ex_failure_def)
  have refused: "\<not> put_accepts ex_api ex_partial"
    by (simp add: put_accepts_def ex_partial_def)
  have old: "cache_match [(CACHE_NAME, [(url ex_api, ex_stored)])] CACHE_NAME ex_api =
      Some ex_stored"
    by (simp add: cache_match_def caches_match_def ex_api_def)
  have miss: "caches_match [(CACHE_NAME, [])] ex_page = None"
    by (simp add: caches_match_def)
  have other: "status ex_failure \<noteq> 200 \<or> rtype ex_failure \<noteq> Basic"
    by (simp add: ex_failure_def)
  have static_case: "\<not> is_dynamic ex_page \<and> caches_match [(CACHE_NAME, [])] ex_page = None
      \<and> net_answers ex_failure (http_method ex_page) (url ex_page) = Some ex_failure
      \<and> (status ex_failure \<noteq> 200 \<or> rtype ex_failure \<noteq> Basic)"
    by (intro conjI) (rule ex_page_static miss up other)+
  note overwritten = dynamic_stores_every_accepted_response [where req = ex_api
      and net = "net_answers ex_failure" and resp = ex_failure
      and st = "[(CACHE_NAME, [(url ex_api, ex_stored)])]",
      OF ex_api_dynamic up, THEN conjunct1, THEN mp, OF accepted]
  note kept = dynamic_stores_every_accepted_response [where req = ex_api
      and net = "net_answers ex_partial" and resp = ex_partial
      and st = "[(CACHE_NAME, [(url ex_api, ex_stored)])]",
      OF ex_api_dynamic up, THEN conjunct2, THEN conjunct1, THEN mp, OF refused,
      THEN conjunct1]
  note static = dynamic_stores_every_accepted_response [where req = ex_api
      and net = "net_answers ex_failure" and resp = ex_failure and st = "[(CACHE_NAME, [])]"
      and req' = ex_page,
      OF ex_api_dynamic up, THEN conjunct2, THEN conjunct2, THEN conjunct2, THEN mp,
      OF static_case]
  show ?thesis
    by (intro conjI)
      (rule ex_api_dynamic up failure [THEN conjunct1] failure [THEN conjunct2] old
         overwritten kept static)+
qed

subsection \<open>Evict\<close>

text \<open>
  Activation deletes and never creates: from a storage that holds only a stale bucket
  it leaves no bucket at all, not the singleton of the current name.
\<close>

theorem activate_without_current_bucket:
  "caches_keys (act_storage (activate_handler [(''cricstreamzone-v1.0.5'', [])])) = []
   \<and> set (caches_keys (act_storage (activate_handler [(''cricstreamzone-v1.0.5'', [])])))
       \<noteq> {CACHE_NAME}"
  by (simp add: activate_handler_def Let_def caches_keys_def caches_delete_def CACHE_NAME_def)

text \<open>
  Claim C5 (what activation leaves), as amended. For every prior storage that holds a
  bucket of the current name, the set of bucket names after \<open>activate\<close> is exactly the
  singleton of the current name; for a prior storage without such a bucket the storage
  is empty afterwards. In both cases no bucket of another name is left, and the current
  bucket is retained with its entries.
\<close>

theorem activate_leaves_current_only:
  "(CACHE_NAME \<in> set (caches_keys st) \<longrightarrow>
      set (caches_keys (act_storage (activate_handler st))) = {CACHE_NAME})
   \<and> (CACHE_NAME \<notin> set (caches_keys st) \<longrightarrow> act_storage (activate_handler st) = [])
   \<and> (\<forall>n. n \<noteq> CACHE_NAME \<longrightarrow> n \<notin> set (caches_keys (act_storage (activate_handler st))))
   \<and> map_of (act_storage (activate_handler st)) CACHE_NAME = map_of st CACHE_NAME"
proof -
  let ?st' = "filter (\<lambda>nb. fst nb = CACHE_NAME) st"
  have keys: "set (caches_keys ?st') = set (caches_keys st) \<inter> {CACHE_NAME}"
    by (force simp: caches_keys_def)
  have none: "CACHE_NAME \<notin> set (caches_keys st) \<Longrightarrow> ?st' = []"
    by (force simp: caches_keys_def filter_empty_conv)
  show ?thesis
    unfolding activate_storage using keys none by (auto simp: map_of_filter_name)
qed

theorem activate_leaves_current_only_witness:
  "CACHE_NAME \<in> set (caches_keys
       [(''cricstreamzone-v1.0.5'', [(url ex_page, ex_stored)]),
        (CACHE_NAME, [(url ex_page, ex_fresh)])])
   \<and> set (caches_keys (act_storage (activate_handler
       [(''cricstreamzone-v1.0.5'', [(url ex_page, ex_stored)]),
        (CACHE_NAME, [(url ex_page, ex_fresh)])]))) = {CACHE_NAME}
   \<and> map_of (act_storage (activate_handler
       [(''cricstreamzone-v1.0.5'', [(url ex_page, ex_stored)]),
        (CACHE_NAME, [(url ex_page, ex_fresh)])])) CACHE_NAME =
       Some [(url ex_page, ex_fresh)]
   \<and> CACHE_NAME \<notin> set (caches_keys [(''cricstreamzone-v1.0.5'', [])])
   \<and> act_storage (activate_handler [(''cricstreamzone-v1.0.5'', [])]) = []"
  using
    activate_leaves_current_only [where st =
      "[(''cricstreamzone-v1.0.5'', [(url ex_page, ex_stored)]),
        (CACHE_NAME, [(url ex_page, ex_fresh)])]"]
    activate_leaves_current_only [where st = "[(''cricstreamzone-v1.0.5'', [])]"]
  by (simp add: caches_keys_def CACHE_NAME_def)

subsection \<open>Receive\<close>

text \<open>
  A payload whose match identifier is an object with a member named \<open>toString\<close>
  decodes, but building the tag throws and no notification is shown.
\<close>

theorem push_unprintable_match_id_throws:
  "JSON_parse (ex_pf (Some ex_unprintable_id)) ex_unprintable_text = Some ex_unprintable_id
   \<and> ex_unprintable_id = JObj [(''matchId'', JObj [(''toString'', JStr ''x'')])]
   \<and> push_handler (ex_pf (Some ex_unprintable_id)) (Some ex_unprintable_text) = Inl TypeError"
  by (simp add: ex_pf_def ex_unprintable_id_def push_handler_def Let_def push_options_def
      notificationData_def spread_def default_notificationData_def js_or_def)

text \<open>
  Claim C6 (a decoded payload is merged over the defaults), as amended. When the
  payload decodes, every field of the descriptor is the decoded value where the payload
  has one and the default otherwise. For a payload that is an object whose match
  identifier converts to a string, the notification the handler asks the platform to
  show has the payload's title, body, icon and badge or else the defaults, and its tag
  is \<open>cricket-match-\<close> followed by the identifier: the string itself, the printed
  number, \<open>true\<close>, the comma-joined elements of an array, \<open>[object Object]\<close> for
  an object, and \<open>general\<close> when the identifier is absent, \<open>null\<close>, \<open>false\<close>,
  zero or the empty string. When the identifier is an object with a member named
  \<open>toString\<close>, or an array that holds one, the handler throws a \<open>TypeError\<close>
  and asks for nothing to be shown. The payload \<open>{"title":"X","matchId":"42"}\<close> gives
  the title \<open>X\<close> and the tag \<open>cricket-match-42\<close>; the empty object and the absent
  payload give the default title and the tag \<open>cricket-match-general\<close>.
\<close>

theorem push_json_payload_merged_over_defaults:
  assumes "JSON_parse pf payload = Some pushData"
  shows "(\<forall>k. map_of (notificationData pf (Some payload)) k =
              (case map_of (rev (own_props pushData)) k of
                 Some v \<Rightarrow> Some v
               | None \<Rightarrow> map_of default_notificationData k))
       \<and> (\<forall>kvs. pushData = JObj kvs \<and> distinct (map fst kvs) \<longrightarrow>
            (\<forall>matchId.
              to_string (Number_toString pf) (js_or (map_of kvs ''matchId'') (JStr ''general'')) = Inr matchId \<longrightarrow>
              push_handler pf (Some payload) =
                Inr \<lparr>shown_title = (case map_of kvs ''title'' of Some v \<Rightarrow> Some v | None \<Rightarrow> Some (JStr ''CricStreamZone'')),
            shown_options =
              \<lparr>body = (case map_of kvs ''body'' of Some v \<Rightarrow> Some v | None \<Rightarrow> Some (JStr ''New cricket match update!'')),
               icon = (case map_of kvs ''icon'' of Some v \<Rightarrow> Some v | None \<Rightarrow> Some (JStr ''https://i.postimg.cc/3rPWWckN/icon-192.png'')),
               badge = (case map_of kvs ''badge'' of Some v \<Rightarrow> Some v | None \<Rightarrow> Some (JStr ''https://i.postimg.cc/3rPWWckN/icon-192.png'')),
               vibrate = [200, 100, 200, 100, 200],
               data = JObj
                 [(''dateOfArrival'', JNum (real (Date_now_arrival pf))),
                  (''primaryKey'', JNum (Math_random pf)),
                  (''url'', js_or (map_of kvs ''url'') (JStr ''/'')),
                  (''matchData'', js_or (map_of kvs ''matchData'') JNull)],
               actions =
                 [\<lparr>action = ''watch'',
                    title = [CHR 0xF0, CHR 0x9F, CHR 0x93, CHR 0xBA] @ '' Watch Live'',
                    button_icon =
                      ''https://i.postimg.cc/BvWg87Rd/videocam-24dp-E3-E3-E3-FILL0-wght400-GRAD0-opsz24.png''\<rparr>,
                   \<lparr>action = ''remind'',
                    title = [CHR 0xE2, CHR 0x8F, CHR 0xB0] @ '' Remind Me'',
                    button_icon =
                      ''https://i.postimg.cc/YC472jwd/radio-24dp-E3-E3-E3-FILL0-wght400-GRAD0-opsz24.png''\<rparr>,
                   \<lparr>action = ''dismiss'',
                    title = [CHR 0xE2, CHR 0x9D, CHR 0x8C] @ '' Dismiss'',
                    button_icon =
                      ''https://i.postimg.cc/K8JDvvxs/live-tv-24dp-E3-E3-E3-FILL0-wght400-GRAD0-opsz24.png''\<rparr>],
               requireInteraction = True,
               silent = False,
               tag = ''cricket-match-'' @ matchId,
               renotify = True,
               timestamp = Date_now_timestamp pf\<rparr>,
            push_waitUntil = Inr ()\<rparr>)
          \<and> (\<forall>e. to_string (Number_toString pf) (js_or (map_of kvs ''matchId'') (JStr ''general'')) = Inl e \<longrightarrow>
              push_handler pf (Some payload) = Inl e)
          \<and> (map_of kvs ''matchId'' \<in> {None, Some JNull, Some (JBool False), Some (JNum 0), Some (JStr [])} \<longrightarrow>
              (\<exists>res. push_handler pf (Some payload) = Inr res
                  \<and> tag (shown_options res) = ''cricket-match-general''))
          \<and> (\<forall>s. map_of kvs ''matchId'' = Some (JStr s) \<and> s \<noteq> [] \<longrightarrow>
              (\<exists>res. push_handler pf (Some payload) = Inr res
                  \<and> tag (shown_options res) = ''cricket-match-'' @ s))
          \<and> (\<forall>n. map_of kvs ''matchId'' = Some (JNum n) \<and> n \<noteq> 0 \<longrightarrow>
              (\<exists>res. push_handler pf (Some payload) = Inr res
                  \<and> tag (shown_options res) = ''cricket-match-'' @ Number_toString pf n))
          \<and> (map_of kvs ''matchId'' = Some (JBool True) \<longrightarrow>
              (\<exists>res. push_handler pf (Some payload) = Inr res
                  \<and> tag (shown_options res) = ''cricket-match-true''))
          \<and> (\<forall>m. map_of kvs ''matchId'' = Some (JObj m) \<and> ''toString'' \<notin> set (map fst m) \<longrightarrow>
              (\<exists>res. push_handler pf (Some payload) = Inr res
                  \<and> tag (shown_options res) = ''cricket-match-[object Object]''))
          \<and> (\<forall>m. map_of kvs ''matchId'' = Some (JObj m) \<and> ''toString'' \<in> set (map fst m) \<longrightarrow>
              push_handler pf (Some payload) = Inl TypeError)
          \<and> (map_of kvs ''matchId'' = Some (JArr [JStr ''a'', JNull, JStr ''b'']) \<longrightarrow>
              (\<exists>res. push_handler pf (Some payload) = Inr res
                  \<and> tag (shown_options res) = ''cricket-match-a,,b''))
          \<and> (map_of kvs ''matchId'' = Some (JArr [JStr ''a'', JObj [(''toString'', JNull)]]) \<longrightarrow>
              push_handler pf (Some payload) = Inl TypeError))
       \<and> (pushData = JObj [(''title'', JStr ''X''), (''matchId'', JStr ''42'')] \<longrightarrow>
            push_handler pf (Some payload) =
              Inr \<lparr>shown_title = Some (JStr ''X''),
            shown_options =
              \<lparr>body = Some (JStr ''New cricket match update!''),
               icon = Some (JStr ''https://i.postimg.cc/3rPWWckN/icon-192.png''),
               badge = Some (JStr ''https://i.postimg.cc/3rPWWckN/icon-192.png''),
               vibrate = [200, 100, 200, 100, 200],
               data = JObj
                 [(''dateOfArrival'', JNum (real (Date_now_arrival pf))),
                  (''primaryKey'', JNum (Math_random pf)),
                  (''url'', JStr ''/''),
                  (''matchData'', JNull)],
               actions =
                 [\<lparr>action = ''watch'',
                    title = [CHR 0xF0, CHR 0x9F, CHR 0x93, CHR 0xBA] @ '' Watch Live'',
                    button_icon =
                      ''https://i.postimg.cc/BvWg87Rd/videocam-24dp-E3-E3-E3-FILL0-wght400-GRAD0-opsz24.png''\<rparr>,
                   \<lparr>action = ''remind'',
                    title = [CHR 0xE2, CHR 0x8F, CHR 0xB0] @ '' Remind Me'',
                    button_icon =
                      ''https://i.postimg.cc/YC472jwd/radio-24dp-E3-E3-E3-FILL0-wght400-GRAD0-opsz24.png''\<rparr>,
                   \<lparr>action = ''dismiss'',
                    title = [CHR 0xE2, CHR 0x9D, CHR 0x8C] @ '' Dismiss'',
                    button_icon =
                      ''https://i.postimg.cc/K8JDvvxs/live-tv-24dp-E3-E3-E3-FILL0-wght400-GRAD0-opsz24.png''\<rparr>],
               requireInteraction = True,
               silent = False,
               tag = ''cricket-match-42'',
               renotify = True,
               timestamp = Date_now_timestamp pf\<rparr>,
            push_waitUntil = Inr ()\<rparr>)
       \<and> (pushData = JObj [] \<longrightarrow>
            push_handler pf (Some payload) =
              Inr \<lparr>shown_title = Some (JStr ''CricStreamZone''),
            shown_options =
              \<lparr>body = Some (JStr ''New cricket match update!''),
               icon = Some (JStr ''https://i.postimg.cc/3rPWWckN/icon-192.png''),
               badge = Some (JStr ''https://i.postimg.cc/3rPWWckN/icon-192.png''),
               vibrate = [200, 100, 200, 100, 200],
               data = JObj
                 [(''dateOfArrival'', JNum (real (Date_now_arrival pf))),
                  (''primaryKey'', JNum (Math_random pf)),
                  (''url'', JStr ''/''),
                  (''matchData'', JNull)],
               actions =
                 [\<lparr>action = ''watch'',
                    title = [CHR 0xF0, CHR 0x9F, CHR 0x93, CHR 0xBA] @ '' Watch Live'',
                    button_icon =
                      ''https://i.postimg.cc/BvWg87Rd/videocam-24dp-E3-E3-E3-FILL0-wght400-GRAD0-opsz24.png''\<rparr>,
                   \<lparr>action = ''remind'',
                    title = [CHR 0xE2, CHR 0x8F, CHR 0xB0] @ '' Remind Me'',
                    button_icon =
                      ''https://i.postimg.cc/YC472jwd/radio-24dp-E3-E3-E3-FILL0-wght400-GRAD0-opsz24.png''\<rparr>,
                   \<lparr>action = ''dismiss'',
                    title = [CHR 0xE2, CHR 0x9D, CHR 0x8C] @ '' Dismiss'',
                    button_icon =
                      ''https://i.postimg.cc/K8JDvvxs/live-tv-24dp-E3-E3-E3-FILL0-wght400-GRAD0-opsz24.png''\<rparr>],
               requireInteraction = True,
               silent = False,
               tag = ''cricket-match-general'',
               renotify = True,
               timestamp = Date_now_timestamp pf\<rparr>,
            push_waitUntil = Inr ()\<rparr>)
       \<and> push_handler pf None =
           Inr \<lparr>shown_title = Some (JStr ''CricStreamZone''),
            shown_options =
              \<lparr>body = Some (JStr ''New cricket match update!''),
               icon = Some (JStr ''https://i.postimg.cc/3rPWWckN/icon-192.png''),
               badge = Some (JStr ''https://i.postimg.cc/3rPWWckN/icon-192.png''),
               vibrate = [200, 100, 200, 100, 200],
               data = JObj
                 [(''dateOfArrival'', JNum (real (Date_now_arrival pf))),
                  (''primaryKey'', JNum (Math_random pf)),
                  (''url'', JStr ''/''),
                  (''matchData'', JNull)],
               actions =
                 [\<lparr>action = ''watch'',
                    title = [CHR 0xF0, CHR 0x9F, CHR 0x93, CHR 0xBA] @ '' Watch Live'',
                    button_icon =
                      ''https://i.postimg.cc/BvWg87Rd/videocam-24dp-E3-E3-E3-FILL0-wght400-GRAD0-opsz24.png''\<rparr>,
                   \<lparr>action = ''remind'',
                    title = [CHR 0xE2, CHR 0x8F, CHR 0xB0] @ '' Remind Me'',
                    button_icon =
                      ''https://i.postimg.cc/YC472jwd/radio-24dp-E3-E3-E3-FILL0-wght400-GRAD0-opsz24.png''\<rparr>,
                   \<lparr>action = ''dismiss'',
                    title = [CHR 0xE2, CHR 0x9D, CHR 0x8C] @ '' Dismiss'',
                    button_icon =
                      ''https://i.postimg.cc/K8JDvvxs/live-tv-24dp-E3-E3-E3-FILL0-wght400-GRAD0-opsz24.png''\<rparr>],
               requireInteraction = True,
               silent = False,
               tag = ''cricket-match-general'',
               renotify = True,
               timestamp = Date_now_timestamp pf\<rparr>,
            push_waitUntil = Inr ()\<rparr>"
proof -
  have general: "\<forall>k. map_of (notificationData pf (Some payload)) k =
              (case map_of (rev (own_props pushData)) k of
                 Some v \<Rightarrow> Some v
               | None \<Rightarrow> map_of default_notificationData k)"
    using merged_lookup_any [OF assms] by blast
  have object: "\<forall>kvs. pushData = JObj kvs \<and> distinct (map fst kvs) \<longrightarrow>
            (\<forall>matchId.
              to_string (Number_toString pf) (js_or (map_of kvs ''matchId'') (JStr ''general'')) = Inr matchId \<longrightarrow>
              push_handler pf (Some payload) =
                Inr \<lparr>shown_title = (case map_of kvs ''title'' of Some v \<Rightarrow> Some v | None \<Rightarrow> Some (JStr ''CricStreamZone'')),
            shown_options =
              \<lparr>body = (case map_of kvs ''body'' of Some v \<Rightarrow> Some v | None \<Rightarrow> Some (JStr ''New cricket match update!'')),
               icon = (case map_of kvs ''icon'' of Some v \<Rightarrow> Some v | None \<Rightarrow> Some (JStr ''https://i.postimg.cc/3rPWWckN/icon-192.png'')),
               badge = (case map_of kvs ''badge'' of Some v \<Rightarrow> Some v | None \<Rightarrow> Some (JStr ''https://i.postimg.cc/3rPWWckN/icon-192.png'')),
               vibrate = [200, 100, 200, 100, 200],
               data = JObj
                 [(''dateOfArrival'', JNum (real (Date_now_arrival pf))),
                  (''primaryKey'', JNum (Math_random pf)),
                  (''url'', js_or (map_of kvs ''url'') (JStr ''/'')),
                  (''matchData'', js_or (map_of kvs ''matchData'') JNull)],
               actions =
                 [\<lparr>action = ''watch'',
                    title = [CHR 0xF0, CHR 0x9F, CHR 0x93, CHR 0xBA] @ '' Watch Live'',
                    button_icon =
                      ''https://i.postimg.cc/BvWg87Rd/videocam-24dp-E3-E3-E3-FILL0-wght400-GRAD0-opsz24.png''\<rparr>,
                   \<lparr>action = ''remind'',
                    title = [CHR 0xE2, CHR 0x8F, CHR 0xB0] @ '' Remind Me'',
                    button_icon =
                      ''https://i.postimg.cc/YC472jwd/radio-24dp-E3-E3-E3-FILL0-wght400-GRAD0-opsz24.png''\<rparr>,
                   \<lparr>action = ''dismiss'',
                    title = [CHR 0xE2, CHR 0x9D, CHR 0x8C] @ '' Dismiss'',
                    button_icon =
                      ''https://i.postimg.cc/K8JDvvxs/live-tv-24dp-E3-E3-E3-FILL0-wght400-GRAD0-opsz24.png''\<rparr>],
               requireInteraction = True,
               silent = False,
               tag = ''cricket-match-'' @ matchId,
               renotify = True,
               timestamp = Date_now_timestamp pf\<rparr>,
            push_waitUntil = Inr ()\<rparr>)
          \<and> (\<forall>e. to_string (Number_toString pf) (js_or (map_of kvs ''matchId'') (JStr ''general'')) = Inl e \<longrightarrow>
              push_handler pf (Some payload) = Inl e)
          \<and> (map_of kvs ''matchId'' \<in> {None, Some JNull, Some (JBool False), Some (JNum 0), Some (JStr [])} \<longrightarrow>
              (\<exists>res. push_handler pf (Some payload) = Inr res
                  \<and> tag (shown_options res) = ''cricket-match-general''))
          \<and> (\<forall>s. map_of kvs ''matchId'' = Some (JStr s) \<and> s \<noteq> [] \<longrightarrow>
              (\<exists>res. push_handler pf (Some payload) = Inr res
                  \<and> tag (shown_options res) = ''cricket-match-'' @ s))
          \<and> (\<forall>n. map_of kvs ''matchId'' = Some (JNum n) \<and> n \<noteq> 0 \<longrightarrow>
              (\<exists>res. push_handler pf (Some payload) = Inr res
                  \<and> tag (shown_options res) = ''cricket-match-'' @ Number_toString pf n))
          \<and> (map_of kvs ''matchId'' = Some (JBool True) \<longrightarrow>
              (\<exists>res. push_handler pf (Some payload) = Inr res
                  \<and> tag (shown_options res) = ''cricket-match-true''))
          \<and> (\<forall>m. map_of kvs ''matchId'' = Some (JObj m) \<and> ''toString'' \<notin> set (map fst m) \<longrightarrow>
              (\<exists>res. push_handler pf (Some payload) = Inr res
                  \<and> tag (shown_options res) = ''cricket-match-[object Object]''))
          \<and> (\<forall>m. map_of kvs ''matchId'' = Some (JObj m) \<and> ''toString'' \<in> set (map fst m) \<longrightarrow>
              push_handler pf (Some payload) = Inl TypeError)
          \<and> (map_of kvs ''matchId'' = Some (JArr [JStr ''a'', JNull, JStr ''b'']) \<longrightarrow>
              (\<exists>res. push_handler pf (Some payload) = Inr res
                  \<and> tag (shown_options res) = ''cricket-match-a,,b''))
          \<and> (map_of kvs ''matchId'' = Some (JArr [JStr ''a'', JObj [(''toString'', JNull)]]) \<longrightarrow>
              push_handler pf (Some payload) = Inl TypeError)"
  proof (intro allI impI)
    fix kvs
    assume given: "pushData = JObj kvs \<and> distinct (map fst kvs)"
    have parse: "JSON_parse pf payload = Some (JObj kvs)"
      using assms given by simp
    have keys: "distinct (map fst kvs)"
      using given by simp
    show "(\<forall>matchId.
              to_string (Number_toString pf) (js_or (map_of kvs ''matchId'') (JStr ''general'')) = Inr matchId \<longrightarrow>
              push_handler pf (Some payload) =
                Inr \<lparr>shown_title = (case map_of kvs ''title'' of Some v \<Rightarrow> Some v | None \<Rightarrow> Some (JStr ''CricStreamZone'')),
            shown_options =
              \<lparr>body = (case map_of kvs ''body'' of Some v \<Rightarrow> Some v | None \<Rightarrow> Some (JStr ''New cricket match update!'')),
               icon = (case map_of kvs ''icon'' of Some v \<Rightarrow> Some v | None \<Rightarrow> Some (JStr ''https://i.postimg.cc/3rPWWckN/icon-192.png'')),
               badge = (case map_of kvs ''badge'' of Some v \<Rightarrow> Some v | None \<Rightarrow> Some (JStr ''https://i.postimg.cc/3rPWWckN/icon-192.png'')),
               vibrate = [200, 100, 200, 100, 200],
               data = JObj
                 [(''dateOfArrival'', JNum (real (Date_now_arrival pf))),
                  (''primaryKey'', JNum (Math_random pf)),
                  (''url'', js_or (map_of kvs ''url'') (JStr ''/'')),
                  (''matchData'', js_or (map_of kvs ''matchData'') JNull)],
               actions =
                 [\<lparr>action = ''watch'',
                    title = [CHR 0xF0, CHR 0x9F, CHR 0x93, CHR 0xBA] @ '' Watch Live'',
                    button_icon =
                      ''https://i.postimg.cc/BvWg87Rd/videocam-24dp-E3-E3-E3-FILL0-wght400-GRAD0-opsz24.png''\<rparr>,
                   \<lparr>action = ''remind'',
                    title = [CHR 0xE2, CHR 0x8F, CHR 0xB0] @ '' Remind Me'',
                    button_icon =
                      ''https://i.postimg.cc/YC472jwd/radio-24dp-E3-E3-E3-FILL0-wght400-GRAD0-opsz24.png''\<rparr>,
                   \<lparr>action = ''dismiss'',
                    title = [CHR 0xE2, CHR 0x9D, CHR 0x8C] @ '' Dismiss'',
                    button_icon =
                      ''https://i.postimg.cc/K8JDvvxs/live-tv-24dp-E3-E3-E3-FILL0-wght400-GRAD0-opsz24.png''\<rparr>],
               requireInteraction = True,
               silent = False,
               tag = ''cricket-match-'' @ matchId,
               renotify = True,
               timestamp = Date_now_timestamp pf\<rparr>,
            push_waitUntil = Inr ()\<rparr>)
          \<and> (\<forall>e. to_string (Number_toString pf) (js_or (map_of kvs ''matchId'') (JStr ''general'')) = Inl e \<longrightarrow>
              push_handler pf (Some payload) = Inl e)
          \<and> (map_of kvs ''matchId'' \<in> {None, Some JNull, Some (JBool False), Some (JNum 0), Some (JStr [])} \<longrightarrow>
              (\<exists>res. push_handler pf (Some payload) = Inr res
                  \<and> tag (shown_options res) = ''cricket-match-general''))
          \<and> (\<forall>s. map_of kvs ''matchId'' = Some (JStr s) \<and> s \<noteq> [] \<longrightarrow>
              (\<exists>res. push_handler pf (Some payload) = Inr res
                  \<and> tag (shown_options res) = ''cricket-match-'' @ s))
          \<and> (\<forall>n. map_of kvs ''matchId'' = Some (JNum n) \<and> n \<noteq> 0 \<longrightarrow>
              (\<exists>res. push_handler pf (Some payload) = Inr res
                  \<and> tag (shown_options res) = ''cricket-match-'' @ Number_toString pf n))
          \<and> (map_of kvs ''matchId'' = Some (JBool True) \<longrightarrow>
              (\<exists>res. push_handler pf (Some payload) = Inr res
                  \<and> tag (shown_options res) = ''cricket-match-true''))
          \<and> (\<forall>m. map_of kvs ''matchId'' = Some (JObj m) \<and> ''toString'' \<notin> set (map fst m) \<longrightarrow>
              (\<exists>res. push_handler pf (Some payload) = Inr res
                  \<and> tag (shown_options res) = ''cricket-match-[object Object]''))
          \<and> (\<forall>m. map_of kvs ''matchId'' = Some (JObj m) \<and> ''toString'' \<in> set (map fst m) \<longrightarrow>
              push_handler pf (Some payload) = Inl TypeError)
          \<and> (map_of kvs ''matchId'' = Some (JArr [JStr ''a'', JNull, JStr ''b'']) \<longrightarrow>
              (\<exists>res. push_handler pf (Some payload) = Inr res
                  \<and> tag (shown_options res) = ''cricket-match-a,,b''))
          \<and> (map_of kvs ''matchId'' = Some (JArr [JStr ''a'', JObj [(''toString'', JNull)]]) \<longrightarrow>
              push_handler pf (Some payload) = Inl TypeError)"
      by (rule push_object_all [OF parse keys])
  qed
  have example: "pushData = JObj [(''title'', JStr ''X''), (''matchId'', JStr ''42'')] \<longrightarrow>
            push_handler pf (Some payload) =
              Inr \<lparr>shown_title = Some (JStr ''X''),
            shown_options =
              \<lparr>body = Some (JStr ''New cricket match update!''),
               icon = Some (JStr ''https://i.postimg.cc/3rPWWckN/icon-192.png''),
               badge = Some (JStr ''https://i.postimg.cc/3rPWWckN/icon-192.png''),
               vibrate = [200, 100, 200, 100, 200],
               data = JObj
                 [(''dateOfArrival'', JNum (real (Date_now_arrival pf))),
                  (''primaryKey'', JNum (Math_random pf)),
                  (''url'', JStr ''/''),
                  (''matchData'', JNull)],
               actions =
                 [\<lparr>action = ''watch'',
                    title = [CHR 0xF0, CHR 0x9F, CHR 0x93, CHR 0xBA] @ '' Watch Live'',
                    button_icon =
                      ''https://i.postimg.cc/BvWg87Rd/videocam-24dp-E3-E3-E3-FILL0-wght400-GRAD0-opsz24.png''\<rparr>,
                   \<lparr>action = ''remind'',
                    title = [CHR 0xE2, CHR 0x8F, CHR 0xB0] @ '' Remind Me'',
                    button_icon =
                      ''https://i.postimg.cc/YC472jwd/radio-24dp-E3-E3-E3-FILL0-wght400-GRAD0-opsz24.png''\<rparr>,
                   \<lparr>action = ''dismiss'',
                    title = [CHR 0xE2, CHR 0x9D, CHR 0x8C] @ '' Dismiss'',
                    button_icon =
                      ''https://i.postimg.cc/K8JDvvxs/live-tv-24dp-E3-E3-E3-FILL0-wght400-GRAD0-opsz24.png''\<rparr>],
               requireInteraction = True,
               silent = False,
               tag = ''cricket-match-42'',
               renotify = True,
               timestamp = Date_now_timestamp pf\<rparr>,
            push_waitUntil = Inr ()\<rparr>"
  proof (rule impI)
    assume given: "pushData = JObj [(''title'', JStr ''X''), (''matchId'', JStr ''42'')]"
    have parse: "JSON_parse pf payload =
        Some (JObj [(''title'', JStr ''X''), (''matchId'', JStr ''42'')])"
      using assms given by simp
    have keys: "distinct (map fst [(''title'', JStr ''X''), (''matchId'', JStr ''42'')])"
      by simp
    show "push_handler pf (Some payload) =
              Inr \<lparr>shown_title = Some (JStr ''X''),
            shown_options =
              \<lparr>body = Some (JStr ''New cricket match update!''),
               icon = Some (JStr ''https://i.postimg.cc/3rPWWckN/icon-192.png''),
               badge = Some (JStr ''https://i.postimg.cc/3rPWWckN/icon-192.png''),
               vibrate = [200, 100, 200, 100, 200],
               data = JObj
                 [(''dateOfArrival'', JNum (real (Date_now_arrival pf))),
                  (''primaryKey'', JNum (Math_random pf)),
                  (''url'', JStr ''/''),
                  (''matchData'', JNull)],
               actions =
                 [\<lparr>action = ''watch'',
                    title = [CHR 0xF0, CHR 0x9F, CHR 0x93, CHR 0xBA] @ '' Watch Live'',
                    button_icon =
                      ''https://i.postimg.cc/BvWg87Rd/videocam-24dp-E3-E3-E3-FILL0-wght400-GRAD0-opsz24.png''\<rparr>,
                   \<lparr>action = ''remind'',
                    title = [CHR 0xE2, CHR 0x8F, CHR 0xB0] @ '' Remind Me'',
                    button_icon =
                      ''https://i.postimg.cc/YC472jwd/radio-24dp-E3-E3-E3-FILL0-wght400-GRAD0-opsz24.png''\<rparr>,
                   \<lparr>action = ''dismiss'',
                    title = [CHR 0xE2, CHR 0x9D, CHR 0x8C] @ '' Dismiss'',
                    button_icon =
                      ''https://i.postimg.cc/K8JDvvxs/live-tv-24dp-E3-E3-E3-FILL0-wght400-GRAD0-opsz24.png''\<rparr>],
               requireInteraction = True,
               silent = False,
               tag = ''cricket-match-42'',
               renotify = True,
               timestamp = Date_now_timestamp pf\<rparr>,
            push_waitUntil = Inr ()\<rparr>"
      by (simp add: push_handler_object [OF parse keys] js_or_def)
  qed
  have empty: "pushData = JObj [] \<longrightarrow>
            push_handler pf (Some payload) =
              Inr \<lparr>shown_title = Some (JStr ''CricStreamZone''),
            shown_options =
              \<lparr>body = Some (JStr ''New cricket match update!''),
               icon = Some (JStr ''https://i.postimg.cc/3rPWWckN/icon-192.png''),
               badge = Some (JStr ''https://i.postimg.cc/3rPWWckN/icon-192.png''),
               vibrate = [200, 100, 200, 100, 200],
               data = JObj
                 [(''dateOfArrival'', JNum (real (Date_now_arrival pf))),
                  (''primaryKey'', JNum (Math_random pf)),
                  (''url'', JStr ''/''),
                  (''matchData'', JNull)],
               actions =
                 [\<lparr>action = ''watch'',
                    title = [CHR 0xF0, CHR 0x9F, CHR 0x93, CHR 0xBA] @ '' Watch Live'',
                    button_icon =
                      ''https://i.postimg.cc/BvWg87Rd/videocam-24dp-E3-E3-E3-FILL0-wght400-GRAD0-opsz24.png''\<rparr>,
                   \<lparr>action = ''remind'',
                    title = [CHR 0xE2, CHR 0x8F, CHR 0xB0] @ '' Remind Me'',
                    button_icon =
                      ''https://i.postimg.cc/YC472jwd/radio-24dp-E3-E3-E3-FILL0-wght400-GRAD0-opsz24.png''\<rparr>,
                   \<lparr>action = ''dismiss'',
                    title = [CHR 0xE2, CHR 0x9D, CHR 0x8C] @ '' Dismiss'',
                    button_icon =
                      ''https://i.postimg.cc/K8JDvvxs/live-tv-24dp-E3-E3-E3-FILL0-wght400-GRAD0-opsz24.png''\<rparr>],
               requireInteraction = True,
               silent = False,
               tag = ''cricket-match-general'',
               renotify = True,
               timestamp = Date_now_timestamp pf\<rparr>,
            push_waitUntil = Inr ()\<rparr>"
  proof (rule impI)
    assume given: "pushData = JObj []"
    have parse: "JSON_parse pf payload = Some (JObj [])"
      using assms given by simp
    have keys: "distinct (map fst ([] :: (string \<times> json) list))"
      by simp
    show "push_handler pf (Some payload) =
              Inr \<lparr>shown_title = Some (JStr ''CricStreamZone''),
            shown_options =
              \<lparr>body = Some (JStr ''New cricket match update!''),
               icon = Some (JStr ''https://i.postimg.cc/3rPWWckN/icon-192.png''),
               badge = Some (JStr ''https://i.postimg.cc/3rPWWckN/icon-192.png''),
               vibrate = [200, 100, 200, 100, 200],
               data = JObj
                 [(''dateOfArrival'', JNum (real (Date_now_arrival pf))),
                  (''primaryKey'', JNum (Math_random pf)),
                  (''url'', JStr ''/''),
                  (''matchData'', JNull)],
               actions =
                 [\<lparr>action = ''watch'',
                    title = [CHR 0xF0, CHR 0x9F, CHR 0x93, CHR 0xBA] @ '' Watch Live'',
                    button_icon =
                      ''https://i.postimg.cc/BvWg87Rd/videocam-24dp-E3-E3-E3-FILL0-wght400-GRAD0-opsz24.png''\<rparr>,
                   \<lparr>action = ''remind'',
                    title = [CHR 0xE2, CHR 0x8F, CHR 0xB0] @ '' Remind Me'',
                    button_icon =
                      ''https://i.postimg.cc/YC472jwd/radio-24dp-E3-E3-E3-FILL0-wght400-GRAD0-opsz24.png''\<rparr>,
                   \<lparr>action = ''dismiss'',
                    title = [CHR 0xE2, CHR 0x9D, CHR 0x8C] @ '' Dismiss'',
                    button_icon =
                      ''https://i.postimg.cc/K8JDvvxs/live-tv-24dp-E3-E3-E3-FILL0-wght400-GRAD0-opsz24.png''\<rparr>],
               requireInteraction = True,
               silent = False,
               tag = ''cricket-match-general'',
               renotify = True,
               timestamp = Date_now_timestamp pf\<rparr>,
            push_waitUntil = Inr ()\<rparr>"
      by (simp add: push_handler_object [OF parse keys] js_or_def)
  qed
  show ?thesis
    by (intro conjI) (rule general object example empty push_handler_absent)+
qed

theorem push_json_payload_merged_over_defaults_witness:
  "JSON_parse (ex_pf (Some ex_decoded)) ex_json_text = Some ex_decoded
   \<and> push_handler (ex_pf (Some ex_decoded)) (Some ex_json_text) =
       Inr \<lparr>shown_title = Some (JStr ''X''),
            shown_options =
              \<lparr>body = Some (JStr ''New cricket match update!''),
               icon = Some (JStr ''https://i.postimg.cc/3rPWWckN/icon-192.png''),
               badge = Some (JStr ''https://i.postimg.cc/3rPWWckN/icon-192.png''),
               vibrate = [200, 100, 200, 100, 200],
               data = JObj
                 [(''dateOfArrival'', JNum 1000),
                  (''primaryKey'', JNum 0),
                  (''url'', JStr ''/''),
                  (''matchData'', JNull)],
               actions =
                 [\<lparr>action = ''watch'',
                    title = [CHR 0xF0, CHR 0x9F, CHR 0x93, CHR 0xBA] @ '' Watch Live'',
                    button_icon =
                      ''https://i.postimg.cc/BvWg87Rd/videocam-24dp-E3-E3-E3-FILL0-wght400-GRAD0-opsz24.png''\<rparr>,
                   \<lparr>action = ''remind'',
                    title = [CHR 0xE2, CHR 0x8F, CHR 0xB0] @ '' Remind Me'',
                    button_icon =
                      ''https://i.postimg.cc/YC472jwd/radio-24dp-E3-E3-E3-FILL0-wght400-GRAD0-opsz24.png''\<rparr>,
                   \<lparr>action = ''dismiss'',
                    title = [CHR 0xE2, CHR 0x9D, CHR 0x8C] @ '' Dismiss'',
                    button_icon =
                      ''https://i.postimg.cc/K8JDvvxs/live-tv-24dp-E3-E3-E3-FILL0-wght400-GRAD0-opsz24.png''\<rparr>],
               requireInteraction = True,
               silent = False,
               tag = ''cricket-match-42'',
               renotify = True,
               timestamp = 1001\<rparr>,
            push_waitUntil = Inr ()\<rparr>
   \<and> push_handler (ex_pf (Some (JObj []))) (Some ''{}'') =
       Inr \<lparr>shown_title = Some (JStr ''CricStreamZone''),
            shown_options =
              \<lparr>body = Some (JStr ''New cricket match update!''),
               icon = Some (JStr ''https://i.postimg.cc/3rPWWckN/icon-192.png''),
               badge = Some (JStr ''https://i.postimg.cc/3rPWWckN/icon-192.png''),
               vibrate = [200, 100, 200, 100, 200],
               data = JObj
                 [(''dateOfArrival'', JNum 1000),
                  (''primaryKey'', JNum 0),
                  (''url'', JStr ''/''),
                  (''matchData'', JNull)],
               actions =
                 [\<lparr>action = ''watch'',
                    title = [CHR 0xF0, CHR 0x9F, CHR 0x93, CHR 0xBA] @ '' Watch Live'',
                    button_icon =
                      ''https://i.postimg.cc/BvWg87Rd/videocam-24dp-E3-E3-E3-FILL0-wght400-GRAD0-opsz24.png''\<rparr>,
                   \<lparr>action = ''remind'',
                    title = [CHR 0xE2, CHR 0x8F, CHR 0xB0] @ '' Remind Me'',
                    button_icon =
                      ''https://i.postimg.cc/YC472jwd/radio-24dp-E3-E3-E3-FILL0-wght400-GRAD0-opsz24.png''\<rparr>,
                   \<lparr>action = ''dismiss'',
                    title = [CHR 0xE2, CHR 0x9D, CHR 0x8C] @ '' Dismiss'',
                    button_icon =
                      ''https://i.postimg.cc/K8JDvvxs/live-tv-24dp-E3-E3-E3-FILL0-wght400-GRAD0-opsz24.png''\<rparr>],
               requireInteraction = True,
               silent = False,
               tag = ''cricket-match-general'',
               renotify = True,
               timestamp = 1001\<rparr>,
            push_waitUntil = Inr ()\<rparr>
   \<and> push_handler (ex_pf (Some ex_unprintable_id)) (Some ex_unprintable_text) = Inl TypeError
   \<and> push_handler (ex_pf (Some ex_rich)) (Some ex_rich_text) =
       Inr \<lparr>shown_title = Some (JStr ''Final''),
            shown_options =
              \<lparr>body = Some (JStr ''Live now''),
               icon = Some (JStr ''https://i.postimg.cc/3rPWWckN/icon-192.png''),
               badge = Some (JStr ''https://i.postimg.cc/3rPWWckN/icon-192.png''),
               vibrate = [200, 100, 200, 100, 200],
               data = JObj
                 [(''dateOfArrival'', JNum 1000),
                  (''primaryKey'', JNum 0),
                  (''url'', JStr ''/live''),
                  (''matchData'', JObj [(''over'', JNum 7)])],
               actions =
                 [\<lparr>action = ''watch'',
                    title = [CHR 0xF0, CHR 0x9F, CHR 0x93, CHR 0xBA] @ '' Watch Live'',
                    button_icon =
                      ''https://i.postimg.cc/BvWg87Rd/videocam-24dp-E3-E3-E3-FILL0-wght400-GRAD0-opsz24.png''\<rparr>,
                   \<lparr>action = ''remind'',
                    title = [CHR 0xE2, CHR 0x8F, CHR 0xB0] @ '' Remind Me'',
                    button_icon =
                      ''https://i.postimg.cc/YC472jwd/radio-24dp-E3-E3-E3-FILL0-wght400-GRAD0-opsz24.png''\<rparr>,
                   \<lparr>action = ''dismiss'',
                    title = [CHR 0xE2, CHR 0x9D, CHR 0x8C] @ '' Dismiss'',
                    button_icon =
                      ''https://i.postimg.cc/K8JDvvxs/live-tv-24dp-E3-E3-E3-FILL0-wght400-GRAD0-opsz24.png''\<rparr>],
               requireInteraction = True,
               silent = False,
               tag = ''cricket-match-7'',
               renotify = True,
               timestamp = 1001\<rparr>,
            push_waitUntil = Inr ()\<rparr>"
proof -
  have parse: "JSON_parse (ex_pf (Some ex_decoded)) ex_json_text = Some ex_decoded"
    by (simp add: ex_pf_def)
  have parse_empty: "JSON_parse (ex_pf (Some (JObj []))) ''{}'' = Some (JObj [])"
    by (simp add: ex_pf_def)
  have parse_odd:
    "JSON_parse (ex_pf (Some ex_unprintable_id)) ex_unprintable_text = Some ex_unprintable_id"
    by (simp add: ex_pf_def)
  have decoded: "ex_decoded = JObj [(''title'', JStr ''X''), (''matchId'', JStr ''42'')]"
    by (simp add: ex_decoded_def)
  have odd: "ex_unprintable_id = JObj [(''matchId'', JObj [(''toString'', JStr ''x'')])]
      \<and> distinct (map fst [(''matchId'', JObj [(''toString'', JStr ''x'')])])"
    by (simp add: ex_unprintable_id_def)
  have member: "map_of [(''matchId'', JObj [(''toString'', JStr ''x'')])] ''matchId'' =
        Some (JObj [(''toString'', JStr ''x'')])
      \<and> ''toString'' \<in> set (map fst [(''toString'', JStr ''x'')])"
    by simp
  note example = push_json_payload_merged_over_defaults [OF parse, THEN conjunct2,
      THEN conjunct2, THEN conjunct1, THEN mp, OF decoded]
  note empty = push_json_payload_merged_over_defaults [OF parse_empty, THEN conjunct2,
      THEN conjunct2, THEN conjunct2, THEN conjunct1, THEN mp, OF refl]
  note object = push_json_payload_merged_over_defaults [OF parse_odd, THEN conjunct2,
      THEN conjunct1, THEN spec, THEN mp, OF odd]
  note thrown = object [THEN conjunct2, THEN conjunct2, THEN conjunct2, THEN conjunct2,
      THEN conjunct2, THEN conjunct2, THEN conjunct2, THEN conjunct1, THEN spec, THEN mp,
      OF member]
  have parse_rich: "JSON_parse (ex_pf (Some ex_rich)) ex_rich_text = Some ex_rich"
    by (simp add: ex_pf_def)
  have rich: "ex_rich =
      JObj [(''title'', JStr ''Final''), (''body'', JStr ''Live now''),
            (''url'', JStr ''/live''), (''matchData'', JObj [(''over'', JNum 7)]),
            (''matchId'', JNum 7)]
      \<and> distinct (map fst
            [(''title'', JStr ''Final''), (''body'', JStr ''Live now''),
             (''url'', JStr ''/live''), (''matchData'', JObj [(''over'', JNum 7)]),
             (''matchId'', JNum 7)])"
    by (simp add: ex_rich_def)
  have seven: "to_string (Number_toString (ex_pf (Some ex_rich)))
      (js_or (map_of
            [(''title'', JStr ''Final''), (''body'', JStr ''Live now''),
             (''url'', JStr ''/live''), (''matchData'', JObj [(''over'', JNum 7)]),
             (''matchId'', JNum 7)] ''matchId'') (JStr ''general'')) = Inr ''7''"
    by (simp add: ex_pf_def ex_numstr_def js_or_def)
  note whole = push_json_payload_merged_over_defaults [OF parse_rich, THEN conjunct2,
      THEN conjunct1, THEN spec, THEN mp, OF rich, THEN conjunct1, THEN spec, THEN mp,
      OF seven]
  have full: "push_handler (ex_pf (Some ex_rich)) (Some ex_rich_text) =
       Inr \<lparr>shown_title = Some (JStr ''Final''),
            shown_options =
              \<lparr>body = Some (JStr ''Live now''),
               icon = Some (JStr ''https://i.postimg.cc/3rPWWckN/icon-192.png''),
               badge = Some (JStr ''https://i.postimg.cc/3rPWWckN/icon-192.png''),
               vibrate = [200, 100, 200, 100, 200],
               data = JObj
                 [(''dateOfArrival'', JNum 1000),
                  (''primaryKey'', JNum 0),
                  (''url'', JStr ''/live''),
                  (''matchData'', JObj [(''over'', JNum 7)])],
               actions =
                 [\<lparr>action = ''watch'',
                    title = [CHR 0xF0, CHR 0x9F, CHR 0x93, CHR 0xBA] @ '' Watch Live'',
                    button_icon =
                      ''https://i.postimg.cc/BvWg87Rd/videocam-24dp-E3-E3-E3-FILL0-wght400-GRAD0-opsz24.png''\<rparr>,
                   \<lparr>action = ''remind'',
                    title = [CHR 0xE2, CHR 0x8F, CHR 0xB0] @ '' Remind Me'',
                    button_icon =
                      ''https://i.postimg.cc/YC472jwd/radio-24dp-E3-E3-E3-FILL0-wght400-GRAD0-opsz24.png''\<rparr>,
                   \<lparr>action = ''dismiss'',
                    title = [CHR 0xE2, CHR 0x9D, CHR 0x8C] @ '' Dismiss'',
                    button_icon =
                      ''https://i.postimg.cc/K8JDvvxs/live-tv-24dp-E3-E3-E3-FILL0-wght400-GRAD0-opsz24.png''\<rparr>],
               requireInteraction = True,
               silent = False,
               tag = ''cricket-match-7'',
               renotify = True,
               timestamp = 1001\<rparr>,
            push_waitUntil = Inr ()\<rparr>"
    using whole by (simp add: ex_pf_def js_or_def)
  have shown: "push_handler (ex_pf (Some ex_decoded)) (Some ex_json_text) =
       Inr \<lparr>shown_title = Some (JStr ''X''),
            shown_options =
              \<lparr>body = Some (JStr ''New cricket match update!''),
               icon = Some (JStr ''https://i.postimg.cc/3rPWWckN/icon-192.png''),
               badge = Some (JStr ''https://i.postimg.cc/3rPWWckN/icon-192.png''),
               vibrate = [200, 100, 200, 100, 200],
               data = JObj
                 [(''dateOfArrival'', JNum 1000),
                  (''primaryKey'', JNum 0),
                  (''url'', JStr ''/''),
                  (''matchData'', JNull)],
               actions =
                 [\<lparr>action = ''watch'',
                    title = [CHR 0xF0, CHR 0x9F, CHR 0x93, CHR 0xBA] @ '' Watch Live'',
                    button_icon =
                      ''https://i.postimg.cc/BvWg87Rd/videocam-24dp-E3-E3-E3-FILL0-wght400-GRAD0-opsz24.png''\<rparr>,
                   \<lparr>action = ''remind'',
                    title = [CHR 0xE2, CHR 0x8F, CHR 0xB0] @ '' Remind Me'',
                    button_icon =
                      ''https://i.postimg.cc/YC472jwd/radio-24dp-E3-E3-E3-FILL0-wght400-GRAD0-opsz24.png''\<rparr>,
                   \<lparr>action = ''dismiss'',
                    title = [CHR 0xE2, CHR 0x9D, CHR 0x8C] @ '' Dismiss'',
                    button_icon =
                      ''https://i.postimg.cc/K8JDvvxs/live-tv-24dp-E3-E3-E3-FILL0-wght400-GRAD0-opsz24.png''\<rparr>],
               requireInteraction = True,
               silent = False,
               tag = ''cricket-match-42'',
               renotify = True,
               timestamp = 1001\<rparr>,
            push_waitUntil = Inr ()\<rparr>"
    using example by (simp add: ex_pf_def)
  have generic: "push_handler (ex_pf (Some (JObj []))) (Some ''{}'') =
       Inr \<lparr>shown_title = Some (JStr ''CricStreamZone''),
            shown_options =
              \<lparr>body = Some (JStr ''New cricket match update!''),
               icon = Some (JStr ''https://i.postimg.cc/3rPWWckN/icon-192.png''),
               badge = Some (JStr ''https://i.postimg.cc/3rPWWckN/icon-192.png''),
               vibrate = [200, 100, 200, 100, 200],
               data = JObj
                 [(''dateOfArrival'', JNum 1000),
                  (''primaryKey'', JNum 0),
                  (''url'', JStr ''/''),
                  (''matchData'', JNull)],
               actions =
                 [\<lparr>action = ''watch'',
                    title = [CHR 0xF0, CHR 0x9F, CHR 0x93, CHR 0xBA] @ '' Watch Live'',
                    button_icon =
                      ''https://i.postimg.cc/BvWg87Rd/videocam-24dp-E3-E3-E3-FILL0-wght400-GRAD0-opsz24.png''\<rparr>,
                   \<lparr>action = ''remind'',
                    title = [CHR 0xE2, CHR 0x8F, CHR 0xB0] @ '' Remind Me'',
                    button_icon =
                      ''https://i.postimg.cc/YC472jwd/radio-24dp-E3-E3-E3-FILL0-wght400-GRAD0-opsz24.png''\<rparr>,
                   \<lparr>action = ''dismiss'',
                    title = [CHR 0xE2, CHR 0x9D, CHR 0x8C] @ '' Dismiss'',
                    button_icon =
                      ''https://i.postimg.cc/K8JDvvxs/live-tv-24dp-E3-E3-E3-FILL0-wght400-GRAD0-opsz24.png''\<rparr>],
               requireInteraction = True,
               silent = False,
               tag = ''cricket-match-general'',
               renotify = True,
               timestamp = 1001\<rparr>,
            push_waitUntil = Inr ()\<rparr>"
    using empty by (simp add: ex_pf_def)
  show ?thesis
    by (intro conjI) (rule parse shown generic thrown full)+
qed

text \<open>
  Claim C7 (a payload that does not decode becomes the body). When decoding the payload
  throws, the notification the handler asks the platform to show has the whole payload
  text as its body and, in every other field, what a push without payload gives: the
  default title, icon and badge, the
  fixed vibration pattern and actions, the data with the root path as \<open>url\<close> and no
  match data, and the tag \<open>cricket-match-general\<close>. The handler does not throw, and the
  promise given to \<open>event.waitUntil\<close> fulfils, also when the notification may not be
  shown.
\<close>

theorem push_undecodable_payload_becomes_body:
  assumes "JSON_parse pf payload = None"
  shows "push_handler pf (Some payload) =
           Inr \<lparr>shown_title = Some (JStr ''CricStreamZone''),
            shown_options =
              \<lparr>body = Some (JStr payload),
               icon = Some (JStr ''https://i.postimg.cc/3rPWWckN/icon-192.png''),
               badge = Some (JStr ''https://i.postimg.cc/3rPWWckN/icon-192.png''),
               vibrate = [200, 100, 200, 100, 200],
               data = JObj
                 [(''dateOfArrival'', JNum (real (Date_now_arrival pf))),
                  (''primaryKey'', JNum (Math_random pf)),
                  (''url'', JStr ''/''),
                  (''matchData'', JNull)],
               actions =
                 [\<lparr>action = ''watch'',
                    title = [CHR 0xF0, CHR 0x9F, CHR 0x93, CHR 0xBA] @ '' Watch Live'',
                    button_icon =
                      ''https://i.postimg.cc/BvWg87Rd/videocam-24dp-E3-E3-E3-FILL0-wght400-GRAD0-opsz24.png''\<rparr>,
                   \<lparr>action = ''remind'',
                    title = [CHR 0xE2, CHR 0x8F, CHR 0xB0] @ '' Remind Me'',
                    button_icon =
                      ''https://i.postimg.cc/YC472jwd/radio-24dp-E3-E3-E3-FILL0-wght400-GRAD0-opsz24.png''\<rparr>,
                   \<lparr>action = ''dismiss'',
                    title = [CHR 0xE2, CHR 0x9D, CHR 0x8C] @ '' Dismiss'',
                    button_icon =
                      ''https://i.postimg.cc/K8JDvvxs/live-tv-24dp-E3-E3-E3-FILL0-wght400-GRAD0-opsz24.png''\<rparr>],
               requireInteraction = True,
               silent = False,
               tag = ''cricket-match-general'',
               renotify = True,
               timestamp = Date_now_timestamp pf\<rparr>,
            push_waitUntil = Inr ()\<rparr>
       \<and> push_handler pf None =
           Inr \<lparr>shown_title = Some (JStr ''CricStreamZone''),
            shown_options =
              \<lparr>body = Some (JStr ''New cricket match update!''),
               icon = Some (JStr ''https://i.postimg.cc/3rPWWckN/icon-192.png''),
               badge = Some (JStr ''https://i.postimg.cc/3rPWWckN/icon-192.png''),
               vibrate = [200, 100, 200, 100, 200],
               data = JObj
                 [(''dateOfArrival'', JNum (real (Date_now_arrival pf))),
                  (''primaryKey'', JNum (Math_random pf)),
                  (''url'', JStr ''/''),
                  (''matchData'', JNull)],
               actions =
                 [\<lparr>action = ''watch'',
                    title = [CHR 0xF0, CHR 0x9F, CHR 0x93, CHR 0xBA] @ '' Watch Live'',
                    button_icon =
                      ''https://i.postimg.cc/BvWg87Rd/videocam-24dp-E3-E3-E3-FILL0-wght400-GRAD0-opsz24.png''\<rparr>,
                   \<lparr>action = ''remind'',
                    title = [CHR 0xE2, CHR 0x8F, CHR 0xB0] @ '' Remind Me'',
                    button_icon =
                      ''https://i.postimg.cc/YC472jwd/radio-24dp-E3-E3-E3-FILL0-wght400-GRAD0-opsz24.png''\<rparr>,
                   \<lparr>action = ''dismiss'',
                    title = [CHR 0xE2, CHR 0x9D, CHR 0x8C] @ '' Dismiss'',
                    button_icon =
                      ''https://i.postimg.cc/K8JDvvxs/live-tv-24dp-E3-E3-E3-FILL0-wght400-GRAD0-opsz24.png''\<rparr>],
               requireInteraction = True,
               silent = False,
               tag = ''cricket-match-general'',
               renotify = True,
               timestamp = Date_now_timestamp pf\<rparr>,
            push_waitUntil = Inr ()\<rparr>"
  using assms
  by (simp add: push_handler_def Let_def push_options_def push_actions_def notificationData_def
      map_of_set_body default_fields js_or_def catch_p_def then_p_def showNotification_def)

theorem push_undecodable_payload_becomes_body_witness:
  "JSON_parse (ex_pf None) ''plain text'' = None
   \<and> push_handler (ex_pf None) (Some ''plain text'') =
       Inr \<lparr>shown_title = Some (JStr ''CricStreamZone''),
            shown_options =
              \<lparr>body = Some (JStr ''plain text''),
               icon = Some (JStr ''https://i.postimg.cc/3rPWWckN/icon-192.png''),
               badge = Some (JStr ''https://i.postimg.cc/3rPWWckN/icon-192.png''),
               vibrate = [200, 100, 200, 100, 200],
               data = JObj
                 [(''dateOfArrival'', JNum 1000),
                  (''primaryKey'', JNum 0),
                  (''url'', JStr ''/''),
                  (''matchData'', JNull)],
               actions =
                 [\<lparr>action = ''watch'',
                    title = [CHR 0xF0, CHR 0x9F, CHR 0x93, CHR 0xBA] @ '' Watch Live'',
                    button_icon =
                      ''https://i.postimg.cc/BvWg87Rd/videocam-24dp-E3-E3-E3-FILL0-wght400-GRAD0-opsz24.png''\<rparr>,
                   \<lparr>action = ''remind'',
                    title = [CHR 0xE2, CHR 0x8F, CHR 0xB0] @ '' Remind Me'',
                    button_icon =
                      ''https://i.postimg.cc/YC472jwd/radio-24dp-E3-E3-E3-FILL0-wght400-GRAD0-opsz24.png''\<rparr>,
                   \<lparr>action = ''dismiss'',
                    title = [CHR 0xE2, CHR 0x9D, CHR 0x8C] @ '' Dismiss'',
                    button_icon =
                      ''https://i.postimg.cc/K8JDvvxs/live-tv-24dp-E3-E3-E3-FILL0-wght400-GRAD0-opsz24.png''\<rparr>],
               requireInteraction = True,
               silent = False,
               tag = ''cricket-match-general'',
               renotify = True,
               timestamp = 1001\<rparr>,
            push_waitUntil = Inr ()\<rparr>"
proof -
  have parse: "JSON_parse (ex_pf None) ''plain text'' = None"
    by (simp add: ex_pf_def)
  have shown: "push_handler (ex_pf None) (Some ''plain text'') =
       Inr \<lparr>shown_title = Some (JStr ''CricStreamZone''),
            shown_options =
              \<lparr>body = Some (JStr ''plain text''),
               icon = Some (JStr ''https://i.postimg.cc/3rPWWckN/icon-192.png''),
               badge = Some (JStr ''https://i.postimg.cc/3rPWWckN/icon-192.png''),
               vibrate = [200, 100, 200, 100, 200],
               data = JObj
                 [(''dateOfArrival'', JNum 1000),
                  (''primaryKey'', JNum 0),
                  (''url'', JStr ''/''),
                  (''matchData'', JNull)],
               actions =
                 [\<lparr>action = ''watch'',
                    title = [CHR 0xF0, CHR 0x9F, CHR 0x93, CHR 0xBA] @ '' Watch Live'',
                    button_icon =
                      ''https://i.postimg.cc/BvWg87Rd/videocam-24dp-E3-E3-E3-FILL0-wght400-GRAD0-opsz24.png''\<rparr>,
                   \<lparr>action = ''remind'',
                    title = [CHR 0xE2, CHR 0x8F, CHR 0xB0] @ '' Remind Me'',
                    button_icon =
                      ''https://i.postimg.cc/YC472jwd/radio-24dp-E3-E3-E3-FILL0-wght400-GRAD0-opsz24.png''\<rparr>,
                   \<lparr>action = ''dismiss'',
                    title = [CHR 0xE2, CHR 0x9D, CHR 0x8C] @ '' Dismiss'',
                    button_icon =
                      ''https://i.postimg.cc/K8JDvvxs/live-tv-24dp-E3-E3-E3-FILL0-wght400-GRAD0-opsz24.png''\<rparr>],
               requireInteraction = True,
               silent = False,
               tag = ''cricket-match-general'',
               renotify = True,
               timestamp = 1001\<rparr>,
            push_waitUntil = Inr ()\<rparr>"
    using push_undecodable_payload_becomes_body [OF parse, THEN conjunct1]
    by (simp add: ex_pf_def)
  show ?thesis
    by (intro conjI) (rule parse shown)+
qed

subsection \<open>Route\<close>

text \<open>
  Claim C8 (the notification is closed first). Whatever the action, the notification
  data, the open windows and the origin, the first platform call of the click handler
  is closing the notification, and it is not closed again by what follows.
\<close>

theorem click_closes_notification_first:
  "\<exists>rest. notificationclick_handler numstr origin matchAll event_action notification_data =
            NotificationClose # rest
        \<and> NotificationClose \<notin> set rest"
  by (simp add: notificationclick_handler_def split: option.splits list.splits sum.splits)

theorem click_closes_notification_first_witness:
  "notificationclick_handler ex_numstr ex_origin no_windows ''remind'' ex_push_data =
     NotificationClose # [SetTimeout 300000 reminder_notification]
   \<and> NotificationClose \<notin> set [SetTimeout 300000 reminder_notification]"
  using click_closes_notification_first
    [of ex_numstr ex_origin no_windows "''remind''" ex_push_data]
  by (simp add: notificationclick_handler_def)

text \<open>
  A notification shown through \<open>scheduleNotification\<close> carries the \<open>watch\<close> action and
  data without a \<open>url\<close>: with no window open, the click opens the root path, not a URL
  taken from the data. And when the \<open>url\<close> of the data is an object with a member
  named \<open>toString\<close>, the click opens no window at all.
\<close>

theorem watch_click_without_usable_url:
  "prop_opt ex_scheduled_data ''url'' = None
   \<and> notificationclick_handler ex_numstr ex_origin no_windows ''watch'' ex_scheduled_data =
       [NotificationClose, MatchAll True, OpenWindow ''/?action=watch'']
   \<and> prop_opt ex_unprintable_data ''url'' = Some (JObj [(''toString'', JStr ''x'')])
   \<and> notificationclick_handler ex_numstr ex_origin no_windows ''watch'' ex_unprintable_data =
       [NotificationClose, MatchAll True, Reject TypeError]
   \<and> length (filter focus_or_open
        (notificationclick_handler ex_numstr ex_origin no_windows ''watch''
           ex_unprintable_data)) = 0"
  by (simp add: notificationclick_handler_def ex_scheduled_data_def ex_unprintable_data_def
      no_windows_def urlToOpen_def js_or_def)

text \<open>
  Claim C9 (the watch action), as amended. When a window whose URL contains the worker's
  origin is open, the first such window is focused and is sent
  \<open>{action: showLiveMatches, data: <notification data>}\<close>, and no window is opened.
  When there is none and the target converts to a string, one window is opened at the
  target followed by \<open>?action=watch\<close>, where the target is the \<open>url\<close> of the
  notification data when that is truthy and \<open>/\<close> otherwise; exactly one window is
  then focused or opened. When there is none and the target does not convert to a
  string (an object with a member named \<open>toString\<close>), the handler's promise rejects
  with a \<open>TypeError\<close> and no window is focused or opened.
\<close>

theorem watch_click_focuses_first_or_opens_one:
  "(matchAll True = pre @ c # post
      \<and> (\<forall>x \<in> set pre. \<not> str_includes (client_url x) origin)
      \<and> str_includes (client_url c) origin \<longrightarrow>
        notificationclick_handler numstr origin matchAll ''watch'' d =
          [NotificationClose, MatchAll True, Focus c,
           PostMessage c (JObj [(''action'', JStr ''showLiveMatches''), (''data'', d)])])
   \<and> ((\<forall>x \<in> set (matchAll True). \<not> str_includes (client_url x) origin) \<longrightarrow>
        (\<forall>target. to_string numstr (urlToOpen d) = Inr target \<longrightarrow>
           notificationclick_handler numstr origin matchAll ''watch'' d =
             [NotificationClose, MatchAll True, OpenWindow (target @ ''?action=watch'')])
      \<and> (\<forall>e. to_string numstr (urlToOpen d) = Inl e \<longrightarrow>
           notificationclick_handler numstr origin matchAll ''watch'' d =
             [NotificationClose, MatchAll True, Reject e])
      \<and> (\<forall>u. prop_opt d ''url'' = Some (JStr u) \<and> u \<noteq> [] \<longrightarrow>
           notificationclick_handler numstr origin matchAll ''watch'' d =
             [NotificationClose, MatchAll True, OpenWindow (u @ ''?action=watch'')])
      \<and> (prop_opt d ''url'' \<in>
            {None, Some JNull, Some (JBool False), Some (JNum 0), Some (JStr [])} \<longrightarrow>
           notificationclick_handler numstr origin matchAll ''watch'' d =
             [NotificationClose, MatchAll True, OpenWindow ''/?action=watch''])
      \<and> (\<forall>m. prop_opt d ''url'' = Some (JObj m) \<and> ''toString'' \<in> set (map fst m) \<longrightarrow>
           notificationclick_handler numstr origin matchAll ''watch'' d =
             [NotificationClose, MatchAll True, Reject TypeError])
      \<and> (\<forall>m. prop_opt d ''url'' = Some (JObj m) \<and> ''toString'' \<notin> set (map fst m) \<longrightarrow>
           notificationclick_handler numstr origin matchAll ''watch'' d =
             [NotificationClose, MatchAll True, OpenWindow ''[object Object]?action=watch''])
      \<and> (\<forall>n. prop_opt d ''url'' = Some (JNum n) \<and> n \<noteq> 0 \<longrightarrow>
           notificationclick_handler numstr origin matchAll ''watch'' d =
             [NotificationClose, MatchAll True, OpenWindow (numstr n @ ''?action=watch'')]))
   \<and> (\<forall>v. prop_opt d ''url'' = Some v \<and> truthy (Some v) \<longrightarrow> urlToOpen d = v)
   \<and> (\<not> truthy (prop_opt d ''url'') \<longrightarrow> urlToOpen d = JStr ''/'')
   \<and> length (filter focus_or_open
        (notificationclick_handler numstr origin matchAll ''watch'' d)) =
       (if (\<forall>x \<in> set (matchAll True). \<not> str_includes (client_url x) origin)
           \<and> (\<exists>e. to_string numstr (urlToOpen d) = Inl e)
        then 0 else 1)"
proof -
  have first: "notificationclick_handler numstr origin matchAll ''watch'' d =
          [NotificationClose, MatchAll True, Focus c,
           PostMessage c (JObj [(''action'', JStr ''showLiveMatches''), (''data'', d)])]"
    if "matchAll True = pre @ c # post
      \<and> (\<forall>x \<in> set pre. \<not> str_includes (client_url x) origin)
      \<and> str_includes (client_url c) origin"
    using that find_first [of pre "\<lambda>client. str_includes (client_url client) origin" c post]
    by (simp add: notificationclick_handler_def)
  have none: "(\<forall>target. to_string numstr (urlToOpen d) = Inr target \<longrightarrow>
           notificationclick_handler numstr origin matchAll ''watch'' d =
             [NotificationClose, MatchAll True, OpenWindow (target @ ''?action=watch'')])
      \<and> (\<forall>e. to_string numstr (urlToOpen d) = Inl e \<longrightarrow>
           notificationclick_handler numstr origin matchAll ''watch'' d =
             [NotificationClose, MatchAll True, Reject e])
      \<and> (\<forall>u. prop_opt d ''url'' = Some (JStr u) \<and> u \<noteq> [] \<longrightarrow>
           notificationclick_handler numstr origin matchAll ''watch'' d =
             [NotificationClose, MatchAll True, OpenWindow (u @ ''?action=watch'')])
      \<and> (prop_opt d ''url'' \<in>
            {None, Some JNull, Some (JBool False), Some (JNum 0), Some (JStr [])} \<longrightarrow>
           notificationclick_handler numstr origin matchAll ''watch'' d =
             [NotificationClose, MatchAll True, OpenWindow ''/?action=watch''])
      \<and> (\<forall>m. prop_opt d ''url'' = Some (JObj m) \<and> ''toString'' \<in> set (map fst m) \<longrightarrow>
           notificationclick_handler numstr origin matchAll ''watch'' d =
             [NotificationClose, MatchAll True, Reject TypeError])
      \<and> (\<forall>m. prop_opt d ''url'' = Some (JObj m) \<and> ''toString'' \<notin> set (map fst m) \<longrightarrow>
           notificationclick_handler numstr origin matchAll ''watch'' d =
             [NotificationClose, MatchAll True, OpenWindow ''[object Object]?action=watch''])
      \<and> (\<forall>n. prop_opt d ''url'' = Some (JNum n) \<and> n \<noteq> 0 \<longrightarrow>
           notificationclick_handler numstr origin matchAll ''watch'' d =
             [NotificationClose, MatchAll True, OpenWindow (numstr n @ ''?action=watch'')])"
    if "\<forall>x \<in> set (matchAll True). \<not> str_includes (client_url x) origin"
    by (auto simp: watch_no_window [where matchAll = matchAll and origin = origin, OF that] urlToOpen_def js_or_def)
  have url: "\<forall>v. prop_opt d ''url'' = Some v \<and> truthy (Some v) \<longrightarrow> urlToOpen d = v"
    by (simp add: urlToOpen_def js_or_def)
  have fallback: "\<not> truthy (prop_opt d ''url'') \<longrightarrow> urlToOpen d = JStr ''/''"
    by (auto simp: urlToOpen_def js_or_def split: option.splits)
  have count: "length (filter focus_or_open
        (notificationclick_handler numstr origin matchAll ''watch'' d)) =
       (if (\<forall>x \<in> set (matchAll True). \<not> str_includes (client_url x) origin)
           \<and> (\<exists>e. to_string numstr (urlToOpen d) = Inl e)
        then 0 else 1)"
  proof (cases "\<forall>x \<in> set (matchAll True). \<not> str_includes (client_url x) origin")
    case True
    then show ?thesis
      by (cases "to_string numstr (urlToOpen d)") (simp_all add: watch_no_window [where matchAll = matchAll and origin = origin, OF True])
  next
    case False
    then have "find (\<lambda>client. str_includes (client_url client) origin) (matchAll True) \<noteq> None"
      by (auto simp: find_None_iff)
    with False show ?thesis
      by (auto simp: notificationclick_handler_def split: option.splits)
  qed
  show ?thesis
    using first none url fallback count by blast
qed

theorem watch_click_focuses_first_or_opens_one_witness:
  "two_windows True =
     [] @ ex_window 1 ''https://app.example/'' # [ex_window 2 ''https://app.example/live'']
   \<and> str_includes (client_url (ex_window 1 ''https://app.example/'')) ex_origin
   \<and> notificationclick_handler ex_numstr ex_origin two_windows ''watch'' ex_push_data =
       [NotificationClose, MatchAll True, Focus (ex_window 1 ''https://app.example/''),
        PostMessage (ex_window 1 ''https://app.example/'')
          (JObj [(''action'', JStr ''showLiveMatches''), (''data'', ex_push_data)])]
   \<and> notificationclick_handler ex_numstr ex_origin no_windows ''watch'' ex_push_data =
       [NotificationClose, MatchAll True, OpenWindow (''/live'' @ ''?action=watch'')]
   \<and> notificationclick_handler ex_numstr ex_origin no_windows ''watch'' ex_scheduled_data =
       [NotificationClose, MatchAll True, OpenWindow ''/?action=watch'']
   \<and> notificationclick_handler ex_numstr ex_origin no_windows ''watch'' ex_unprintable_data =
       [NotificationClose, MatchAll True, Reject TypeError]"
proof -
  have split: "two_windows True =
      [] @ ex_window 1 ''https://app.example/'' # [ex_window 2 ''https://app.example/live'']"
    by (simp add: two_windows_def)
  have at_origin: "str_includes (client_url (ex_window 1 ''https://app.example/'')) ex_origin"
    by (simp add: ex_window_def ex_origin_def)
  have first: "two_windows True =
      [] @ ex_window 1 ''https://app.example/'' # [ex_window 2 ''https://app.example/live'']
      \<and> (\<forall>x \<in> set []. \<not> str_includes (client_url x) ex_origin)
      \<and> str_includes (client_url (ex_window 1 ''https://app.example/'')) ex_origin"
    using split at_origin by simp
  have nobody: "\<forall>x \<in> set (no_windows True). \<not> str_includes (client_url x) ex_origin"
    by (simp add: no_windows_def)
  have url: "prop_opt ex_push_data ''url'' = Some (JStr ''/live'') \<and> ''/live'' \<noteq> []"
    by (simp add: ex_push_data_def)
  have no_url: "prop_opt ex_scheduled_data ''url'' \<in>
      {None, Some JNull, Some (JBool False), Some (JNum 0), Some (JStr [])}"
    by (simp add: ex_scheduled_data_def)
  have odd: "prop_opt ex_unprintable_data ''url'' = Some (JObj [(''toString'', JStr ''x'')])
      \<and> ''toString'' \<in> set (map fst [(''toString'', JStr ''x'')])"
    by (simp add: ex_unprintable_data_def)
  note focused = watch_click_focuses_first_or_opens_one [where matchAll = two_windows
      and pre = "[]" and c = "ex_window 1 ''https://app.example/''"
      and post = "[ex_window 2 ''https://app.example/live'']"
      and origin = ex_origin and numstr = ex_numstr and d = ex_push_data,
      THEN conjunct1, THEN mp, OF first]
  note opened = watch_click_focuses_first_or_opens_one [where matchAll = no_windows
      and origin = ex_origin and numstr = ex_numstr and d = ex_push_data,
      THEN conjunct2, THEN conjunct1, THEN mp, OF nobody, THEN conjunct2, THEN conjunct2,
      THEN conjunct1, THEN spec, THEN mp, OF url]
  note root = watch_click_focuses_first_or_opens_one [where matchAll = no_windows
      and origin = ex_origin and numstr = ex_numstr and d = ex_scheduled_data,
      THEN conjunct2, THEN conjunct1, THEN mp, OF nobody, THEN conjunct2, THEN conjunct2,
      THEN conjunct2, THEN conjunct1, THEN mp, OF no_url]
  note rejected = watch_click_focuses_first_or_opens_one [where matchAll = no_windows
      and origin = ex_origin and numstr = ex_numstr and d = ex_unprintable_data,
      THEN conjunct2, THEN conjunct1, THEN mp, OF nobody, THEN conjunct2, THEN conjunct2,
      THEN conjunct2, THEN conjunct2, THEN conjunct1, THEN spec, THEN mp, OF odd]
  show ?thesis
    by (intro conjI) (rule split at_origin focused opened root rejected)+
qed

end
